theory Spec2Isabelle
  imports Complex_Main "HOL-Library.AList"
begin

section \<open>JavaScript values\<close>

text \<open>
  Prices and sizes are JavaScript numbers. The finite ones are modelled as rationals; a
  \<open>jsnum\<close> is a number that may fail to be finite: \<open>None\<close> stands for the NaN that
  \<open>parseFloat\<close> returns on a missing or unreadable field (and for a non-finite quotient).

  The arithmetic of the model (\<open>+\<close>, \<open>-\<close>, \<open>*\<close>, \<open>/\<close>, \<open>Math.floor\<close>,
  \<open>toFixed\<close>) is exact. The code computes in IEEE doubles, whose results are the exact
  ones where the operands and the results are integers of magnitude at most \<open>2^53 - 1\<close>
  (\<open>Number.isSafeInteger\<close>), as the prices are with the repository's step of 50 and
  price precision 0. Elsewhere a double operation rounds (\<open>0.3 - 0.1\<close> is not \<open>0.2\<close>,
  \<open>Math.floor(1 / 0.1)\<close> is 10) and the code's result can differ from the model's:
  binary rounding is not modelled. The statements about the ladder and about the sell
  that follows a buy fill are therefore made for safe integers only.
\<close>

type_synonym jsnum = "rat option"

text \<open>\<open>Number.isSafeInteger(x)\<close> for a finite number.\<close>

definition isSafeInteger :: "rat \<Rightarrow> bool" where
  "isSafeInteger x = (of_int \<lfloor>x\<rfloor> = x \<and> \<bar>x\<bar> \<le> 2 ^ 53 - 1)"

text \<open>Truthiness of a number: \<open>!x\<close> holds for NaN and for zero.\<close>

definition truthy :: "jsnum \<Rightarrow> bool" where
  "truthy x = (case x of None \<Rightarrow> False | Some v \<Rightarrow> v \<noteq> 0)"

text \<open>\<open>a || b\<close> on numbers.\<close>

definition js_or :: "jsnum \<Rightarrow> jsnum \<Rightarrow> jsnum" where
  "js_or a b = (if truthy a then a else b)"

text \<open>\<open>a - d\<close> with \<open>a\<close> possibly NaN; exact, as said above.\<close>

definition js_sub :: "jsnum \<Rightarrow> rat \<Rightarrow> jsnum" where
  "js_sub a d = (case a of None \<Rightarrow> None | Some v \<Rightarrow> Some (v - d))"

text \<open>
  \<open>parseFloat(x.toFixed(d))\<close> for a finite \<open>x\<close>: the multiple of \<open>10^-d\<close> nearest to
  \<open>x\<close>, the one larger in magnitude on a tie.
\<close>

definition toFixed :: "rat \<Rightarrow> nat \<Rightarrow> rat" where
  "toFixed x d =
     (if x < 0 then - (of_int \<lfloor>(- x) * 10 ^ d + 1 / 2\<rfloor> / 10 ^ d)
      else of_int \<lfloor>x * 10 ^ d + 1 / 2\<rfloor> / 10 ^ d)"

definition startsWith :: "string \<Rightarrow> string \<Rightarrow> bool" where
  "startsWith s p = (take (length p) s = p)"

text \<open>
  A JavaScript \<open>Map\<close> is an association list in insertion order with distinct keys:
  \<open>set\<close> is \<open>AList.update\<close> (in place for a key already there, at the end otherwise),
  \<open>delete\<close> is \<open>AList.delete\<close>, \<open>get\<close> is \<open>map_of\<close>.
\<close>

definition has :: "('k \<times> 'v) list \<Rightarrow> 'k \<Rightarrow> bool" where
  "has m k = (map_of m k \<noteq> None)"

section \<open>CacheManager\<close>

record buy_order =
  b_price :: rat
  b_size :: jsnum
  b_status :: string
  b_timestamp :: int

text \<open>
  A sell entry has the fields \<open>clientOid, price, size, status, timestamp\<close>; the entry
  that \<open>addSellOrder\<close> builds from a bare identifier has no price and no size.
\<close>

record sell_order =
  s_clientOid :: string
  s_price :: jsnum
  s_size :: jsnum
  s_status :: string
  s_timestamp :: int

text \<open>A value of \<open>sellCurrentOrders\<close>: an identifier string (old format) or an object.\<close>

datatype sell_entry = OidString string | SellInfo sell_order

record filled_details =
  f_orderId :: string
  f_clientOid :: string
  f_price :: jsnum
  f_size :: jsnum
  f_timestamp :: int

record cache =
  buyCurrentOrders :: "(string \<times> buy_order) list"
  sellCurrentOrders :: "(jsnum \<times> sell_entry) list"
  buyFilledOrders :: "(jsnum \<times> filled_details) list"
  lastPrice :: "rat option"
  lastPriceTimestamp :: "int option"

definition emptyCache :: cache where
  "emptyCache = \<lparr>buyCurrentOrders = [], sellCurrentOrders = [], buyFilledOrders = [],
                  lastPrice = None, lastPriceTimestamp = None\<rparr>"

text \<open>Every function that reads the clock takes \<open>Date.now()\<close> as the argument \<open>now\<close>.\<close>

definition updatePrice :: "rat \<Rightarrow> int \<Rightarrow> cache \<Rightarrow> cache" where
  "updatePrice price now c = c\<lparr>lastPrice := Some price, lastPriceTimestamp := Some now\<rparr>"

definition getLastPrice :: "cache \<Rightarrow> rat option" where
  "getLastPrice c = lastPrice c"

definition addBuyOrder :: "string \<Rightarrow> rat \<Rightarrow> jsnum \<Rightarrow> int \<Rightarrow> cache \<Rightarrow> cache" where
  "addBuyOrder clientOid price sz now c =
     c\<lparr>buyCurrentOrders :=
         AList.update clientOid
           \<lparr>b_price = price, b_size = sz, b_status = ''pending'', b_timestamp = now\<rparr>
           (buyCurrentOrders c)\<rparr>"

definition removeBuyOrder :: "string \<Rightarrow> cache \<Rightarrow> buy_order option \<times> cache" where
  "removeBuyOrder clientOid c =
     (case map_of (buyCurrentOrders c) clientOid of
        Some order \<Rightarrow>
          (Some order, c\<lparr>buyCurrentOrders := AList.delete clientOid (buyCurrentOrders c)\<rparr>)
      | None \<Rightarrow> (None, c))"

definition entryOid :: "sell_entry \<Rightarrow> string" where
  "entryOid orderInfo = (case orderInfo of OidString s \<Rightarrow> s | SellInfo i \<Rightarrow> s_clientOid i)"

definition addSellOrder :: "jsnum \<Rightarrow> sell_entry \<Rightarrow> int \<Rightarrow> cache \<Rightarrow> cache" where
  "addSellOrder price orderInfo now c =
     (let orderDetails =
            (case orderInfo of
               OidString s \<Rightarrow>
                 \<lparr>s_clientOid = s, s_price = None, s_size = None,
                  s_status = ''pending'', s_timestamp = now\<rparr>
             | SellInfo i \<Rightarrow> i)
      in c\<lparr>sellCurrentOrders := AList.update price (SellInfo orderDetails) (sellCurrentOrders c)\<rparr>)"

definition removeSellOrder :: "jsnum \<Rightarrow> cache \<Rightarrow> sell_entry option \<times> cache" where
  "removeSellOrder price c =
     (case map_of (sellCurrentOrders c) price of
        Some orderInfo \<Rightarrow>
          (Some orderInfo, c\<lparr>sellCurrentOrders := AList.delete price (sellCurrentOrders c)\<rparr>)
      | None \<Rightarrow> (None, c))"

definition addFilledBuyOrder :: "jsnum \<Rightarrow> filled_details \<Rightarrow> cache \<Rightarrow> cache" where
  "addFilledBuyOrder price details c =
     c\<lparr>buyFilledOrders := AList.update price details (buyFilledOrders c)\<rparr>"

definition removeFilledBuyOrder :: "jsnum \<Rightarrow> cache \<Rightarrow> filled_details option \<times> cache" where
  "removeFilledBuyOrder price c =
     (case map_of (buyFilledOrders c) price of
        Some details \<Rightarrow>
          (Some details, c\<lparr>buyFilledOrders := AList.delete price (buyFilledOrders c)\<rparr>)
      | None \<Rightarrow> (None, c))"

definition canPlaceOrder :: "rat \<Rightarrow> rat \<Rightarrow> cache \<Rightarrow> bool" where
  "canPlaceOrder price step c =
     (if price \<in> set (map (\<lambda>(clientOid, order). b_price order) (buyCurrentOrders c)) then False
      else if has (sellCurrentOrders c) (Some (price + step)) then False
      else if has (buyFilledOrders c) (Some price) then False
      else True)"

text \<open>The prices of the active buy orders, in insertion order.\<close>

definition buyPrices :: "cache \<Rightarrow> rat list" where
  "buyPrices c = map (\<lambda>(clientOid, order). b_price order) (buyCurrentOrders c)"


text \<open>
  \<open>updateOrderStatus(clientOid, status, side)\<close>. The side is \<open>'buy'\<close> or \<open>'sell'\<close> in
  any casing. For a sell the entries are searched in insertion order for the identifier.
\<close>

datatype side = Buy | Sell

definition updateOrderStatus :: "string \<Rightarrow> string \<Rightarrow> side \<Rightarrow> int \<Rightarrow> cache \<Rightarrow> bool \<times> cache" where
  "updateOrderStatus clientOid newStatus sd now c =
     (case sd of
        Buy \<Rightarrow>
          (case map_of (buyCurrentOrders c) clientOid of
             Some order \<Rightarrow>
               (True, c\<lparr>buyCurrentOrders :=
                          AList.update clientOid (order\<lparr>b_status := newStatus\<rparr>) (buyCurrentOrders c)\<rparr>)
           | None \<Rightarrow> (False, c))
      | Sell \<Rightarrow>
          (case find (\<lambda>(price, orderInfo). entryOid orderInfo = clientOid) (sellCurrentOrders c) of
             Some (price, OidString s) \<Rightarrow>
               (True, c\<lparr>sellCurrentOrders :=
                          AList.update price
                            (SellInfo \<lparr>s_clientOid = s, s_price = price, s_size = None,
                                       s_status = newStatus, s_timestamp = now\<rparr>)
                            (sellCurrentOrders c)\<rparr>)
           | Some (price, SellInfo i) \<Rightarrow>
               (True, c\<lparr>sellCurrentOrders :=
                          AList.update price (SellInfo (i\<lparr>s_status := newStatus\<rparr>)) (sellCurrentOrders c)\<rparr>)
           | None \<Rightarrow> (False, c)))"

text \<open>
  \<open>cleanPendingOrders(maxPendingTimeMs)\<close>: two loops over the entries of the two maps,
  each deleting the entry it is visiting when that entry is pending and too old. The loop
  state is the map and \<open>removedCount\<close>.
\<close>

definition buyExpired :: "int \<Rightarrow> int \<Rightarrow> buy_order \<Rightarrow> bool" where
  "buyExpired maxPendingTimeMs now orderInfo =
     (b_status orderInfo = ''pending'' \<and> now - b_timestamp orderInfo > maxPendingTimeMs)"

definition sellExpired :: "int \<Rightarrow> int \<Rightarrow> sell_entry \<Rightarrow> bool" where
  "sellExpired maxPendingTimeMs now orderInfo =
     (case orderInfo of
        OidString s \<Rightarrow> False
      | SellInfo i \<Rightarrow> s_status i = ''pending'' \<and> now - s_timestamp i > maxPendingTimeMs)"

definition cleanPendingOrders :: "int \<Rightarrow> int \<Rightarrow> cache \<Rightarrow> nat \<times> cache" where
  "cleanPendingOrders maxPendingTimeMs now c =
     (let (buys, n1) =
            fold (\<lambda>(clientOid, orderInfo) (m, removedCount).
                    if buyExpired maxPendingTimeMs now orderInfo
                    then (AList.delete clientOid m, removedCount + 1)
                    else (m, removedCount))
                 (buyCurrentOrders c) (buyCurrentOrders c, 0);
          (sells, n2) =
            fold (\<lambda>(price, orderInfo) (m, removedCount).
                    if sellExpired maxPendingTimeMs now orderInfo
                    then (AList.delete price m, removedCount + 1)
                    else (m, removedCount))
                 (sellCurrentOrders c) (sellCurrentOrders c, n1)
      in (n2, c\<lparr>buyCurrentOrders := buys, sellCurrentOrders := sells\<rparr>))"

text \<open>
  \<open>getActiveBuyOrdersSortedByDistance(targetPrice)\<close>: the live buy orders, farthest from
  \<open>targetPrice\<close> first; orders at the same distance keep their insertion order.
\<close>

definition getActiveBuyOrdersSortedByDistance :: "rat \<Rightarrow> cache \<Rightarrow> (string \<times> buy_order) list" where
  "getActiveBuyOrdersSortedByDistance targetPrice c =
     sort_key (\<lambda>(clientOid, order). - \<bar>b_price order - targetPrice\<bar>)
       (filter (\<lambda>(clientOid, order). b_status order = ''live'') (buyCurrentOrders c))"

section \<open>WebSocketManager: the trading connection\<close>

text \<open>
  What the order manager needs of the private socket: the two flags, whether
  \<open>privateWs.send\<close> succeeds (it throws on a socket that is not open), the messages
  written to the socket and the queue of throttled messages. A message keeps the
  channel, the identifier, the side, the price and the size.
\<close>

datatype message = PlaceOrderMsg string side rat jsnum | CancelOrderMsg string

record websocket =
  privateConnected :: bool
  isAuthenticated :: bool
  socketOpen :: bool
  sent :: "message list"
  messageQueue :: "message list"

definition placeOrder :: "string \<Rightarrow> side \<Rightarrow> rat \<Rightarrow> jsnum \<Rightarrow> websocket \<Rightarrow> string option \<times> websocket" where
  "placeOrder clientOid sd price sz w =
     (if \<not> privateConnected w \<or> \<not> isAuthenticated w then (None, w)
      else if socketOpen w then (Some clientOid, w\<lparr>sent := sent w @ [PlaceOrderMsg clientOid sd price sz]\<rparr>)
      else (None, w))"

definition wsCancelOrder :: "string \<Rightarrow> websocket \<Rightarrow> bool \<times> websocket" where
  "wsCancelOrder clientOid w =
     (if \<not> privateConnected w \<or> \<not> isAuthenticated w then (False, w)
      else (True, w\<lparr>messageQueue := messageQueue w @ [CancelOrderMsg clientOid]\<rparr>))"

definition placeBulkOrders :: "(string \<times> side \<times> rat \<times> jsnum) list \<Rightarrow> websocket \<Rightarrow> nat \<times> websocket" where
  "placeBulkOrders orders w =
     (if \<not> privateConnected w \<or> \<not> isAuthenticated w then (0, w)
      else fold (\<lambda>(clientOid, sd, price, sz) (ordersPlaced, w').
                   if socketOpen w'
                   then (ordersPlaced + 1, w'\<lparr>sent := sent w' @ [PlaceOrderMsg clientOid sd price sz]\<rparr>)
                   else (ordersPlaced, w'))
                orders (0, w))"

definition cancelBulkOrders :: "string list \<Rightarrow> websocket \<Rightarrow> nat \<times> websocket" where
  "cancelBulkOrders clientOids w =
     (if \<not> privateConnected w \<or> \<not> isAuthenticated w then (0, w)
      else fold (\<lambda>clientOid (cancelRequests, w').
                   if socketOpen w'
                   then (cancelRequests + 1, w'\<lparr>sent := sent w' @ [CancelOrderMsg clientOid]\<rparr>)
                   else (cancelRequests, w'))
                clientOids (0, w))"

section \<open>OrderManager\<close>

record config =
  priceStep :: rat
  maxOrders :: nat
  orderAmountUSDT :: rat
  pricePrecision :: nat
  sizePrecision :: nat

record stats =
  ordersPlaced :: nat
  ordersCancelled :: nat
  buyOrdersFilled :: nat
  sellOrdersFilled :: nat

text \<open>
  The suspended part of \<open>handleInsufficientBalance\<close>: the identifier whose
  \<open>order_cancelled\<close> event it awaits, the price to retry, and the delay of the timer
  that rejects the wait.
\<close>

record recovery =
  awaitedOid :: string
  retryPrice :: rat
  timeoutMs :: nat

record bot =
  cacheManager :: cache
  wsManager :: websocket
  orderStats :: stats
  isHandlingInsufficientBalance :: bool
  cancelWait :: "recovery option"

text \<open>
  \<open>calculateOrderSize(price)\<close>; \<open>this.config.sizePrecision || 6\<close> replaces a precision of
  zero by six. A price of zero gives a quotient that is not finite.
\<close>

definition calculateOrderSize :: "config \<Rightarrow> rat \<Rightarrow> jsnum" where
  "calculateOrderSize cfg price =
     (if price = 0 then None
      else Some (toFixed (orderAmountUSDT cfg / price)
                   (if sizePrecision cfg = 0 then 6 else sizePrecision cfg)))"

text \<open>
  Identifiers are \<open>buy_\<close> or \<open>sell_\<close> followed by the clock and a random number; that
  generated text is the argument \<open>nonce\<close>.
\<close>

definition placeBuyOrder :: "config \<Rightarrow> rat \<Rightarrow> string \<Rightarrow> int \<Rightarrow> bot \<Rightarrow> string option \<times> bot" where
  "placeBuyOrder cfg price nonce now s =
     (if \<not> canPlaceOrder price (priceStep cfg) (cacheManager s) then (None, s)
      else
        let orderSize = calculateOrderSize cfg price;
            clientOid = ''buy_'' @ nonce;
            c = addBuyOrder clientOid price orderSize now (cacheManager s);
            (r, w) = placeOrder clientOid Buy price orderSize (wsManager s)
        in (Some clientOid,
            s\<lparr>cacheManager := c, wsManager := w,
              orderStats := (orderStats s)\<lparr>ordersPlaced := ordersPlaced (orderStats s) + 1\<rparr>\<rparr>))"

text \<open>
  \<open>placeSellOrder(price, size = null)\<close>: the socket is written first, then the cache;
  the result of \<open>wsManager.placeOrder\<close> is not looked at.
\<close>

definition placeSellOrder :: "config \<Rightarrow> rat \<Rightarrow> rat option \<Rightarrow> string \<Rightarrow> int \<Rightarrow> bot \<Rightarrow> string \<times> bot" where
  "placeSellOrder cfg price sz nonce now s =
     (let orderSize = (case sz of Some v \<Rightarrow> Some v | None \<Rightarrow> calculateOrderSize cfg price);
          clientOid = ''sell_'' @ nonce;
          (r, w) = placeOrder clientOid Sell price orderSize (wsManager s);
          c = addSellOrder (Some price)
                (SellInfo \<lparr>s_clientOid = clientOid, s_price = Some price, s_size = orderSize,
                           s_status = ''pending'', s_timestamp = now\<rparr>)
                now (cacheManager s)
      in (clientOid,
          s\<lparr>cacheManager := c, wsManager := w,
            orderStats := (orderStats s)\<lparr>ordersPlaced := ordersPlaced (orderStats s) + 1\<rparr>\<rparr>))"

definition cancelOrder :: "string \<Rightarrow> bot \<Rightarrow> bool \<times> bot" where
  "cancelOrder clientOid s =
     (let (success, w) = wsCancelOrder clientOid (wsManager s)
      in if success
         then (True, s\<lparr>wsManager := w,
                       orderStats := (orderStats s)\<lparr>ordersCancelled := ordersCancelled (orderStats s) + 1\<rparr>\<rparr>)
         else (False, s\<lparr>wsManager := w\<rparr>))"

text \<open>
  The ladder of \<open>enforceMaxOrders\<close>: \<open>basePrice - i * priceStep\<close> for \<open>i < maxOrders\<close>
  with \<open>basePrice = Math.floor(currentPrice / priceStep) * priceStep\<close>. A step of zero
  makes every level NaN, which no order price equals. The quotient, its floor and the
  multiples are exact: they are the code's for a price and a step that are safe integers
  with \<open>|currentPrice| + (maxOrders + 1) * |priceStep|\<close> safe as well, and may differ from
  the code's otherwise (for the price 1 and the step 0.1 the code's base is 1, the exact
  one 0.9).
\<close>

definition desiredPrices :: "config \<Rightarrow> rat \<Rightarrow> rat list" where
  "desiredPrices cfg currentPrice =
     (if priceStep cfg = 0 then []
      else
        let basePrice = of_int \<lfloor>currentPrice / priceStep cfg\<rfloor> * priceStep cfg
        in map (\<lambda>i. basePrice - of_nat i * priceStep cfg) [0..<maxOrders cfg])"

text \<open>
  \<open>enforceMaxOrders()\<close> of the order manager that has \<open>handleInsufficientBalance\<close>:
  it cancels the live and pending buy orders whose price is not on the ladder.
\<close>

definition enforceMaxOrders :: "config \<Rightarrow> bot \<Rightarrow> nat \<times> bot" where
  "enforceMaxOrders cfg s =
     (case getLastPrice (cacheManager s) of
        None \<Rightarrow> (0, s)
      | Some currentPrice \<Rightarrow>
          if currentPrice = 0 then (0, s)
          else
            let ordersToCancel =
                  map fst
                    (filter (\<lambda>(clientOid, orderInfo).
                               (b_status orderInfo = ''live'' \<or> b_status orderInfo = ''pending'')
                               \<and> b_price orderInfo \<notin> set (desiredPrices cfg currentPrice))
                            (buyCurrentOrders (cacheManager s)))
            in if ordersToCancel = [] then (0, s)
               else
                 let (cancelledCount, w) = cancelBulkOrders ordersToCancel (wsManager s)
                 in (cancelledCount,
                     s\<lparr>wsManager := w,
                       orderStats := (orderStats s)\<lparr>ordersCancelled :=
                                        ordersCancelled (orderStats s) + cancelledCount\<rparr>\<rparr>))"


text \<open>
  \<open>handleBuyOrderFilled(data)\<close> with \<open>data = {price, clientOid, size, orderId}\<close>.
  The tests \<open>!price\<close> and \<open>!size\<close> reject NaN and zero;
  \<open>this.config.pricePrecision || 0\<close> is the precision itself.
\<close>

definition handleBuyOrderFilled :: "config \<Rightarrow> jsnum \<Rightarrow> string \<Rightarrow> jsnum \<Rightarrow> string \<Rightarrow> int \<Rightarrow> bot \<Rightarrow> bot" where
  "handleBuyOrderFilled cfg price clientOid sz nonce now s =
     (case price of
        None \<Rightarrow> s
      | Some p \<Rightarrow>
          if p = 0 then s
          else
            (case sz of
               None \<Rightarrow> s
             | Some z \<Rightarrow>
                 if z = 0 then s
                 else
                   let s1 = s\<lparr>orderStats := (orderStats s)\<lparr>buyOrdersFilled :=
                                               buyOrdersFilled (orderStats s) + 1\<rparr>\<rparr>;
                       sellPrice = toFixed (p + priceStep cfg) (pricePrecision cfg)
                   in snd (placeSellOrder cfg sellPrice (Some z) nonce now s1)))"

definition handleSellOrderFilled :: "bot \<Rightarrow> bot" where
  "handleSellOrderFilled s =
     s\<lparr>orderStats := (orderStats s)\<lparr>sellOrdersFilled := sellOrdersFilled (orderStats s) + 1\<rparr>\<rparr>"

text \<open>
  \<open>placeBulkBuyOrders(pricesData)\<close>: the loop state is the list of prepared orders, the
  counter \<open>orderCount\<close> and the bot. \<open>mkNonce k\<close> is the text generated for the
  identifier of the order prepared with \<open>orderCount = k\<close>.
\<close>

definition placeBulkBuyOrders :: "config \<Rightarrow> rat list \<Rightarrow> (nat \<Rightarrow> string) \<Rightarrow> int \<Rightarrow> bot \<Rightarrow> nat \<times> bot" where
  "placeBulkBuyOrders cfg pricesData mkNonce now s =
     (let (orders, orderCount, s1) =
            fold (\<lambda>price (orders, orderCount, s').
                    if \<not> canPlaceOrder price (priceStep cfg) (cacheManager s')
                    then (orders, orderCount, s')
                    else
                      let orderSize = calculateOrderSize cfg price;
                          clientOid = ''buy_'' @ mkNonce orderCount
                      in (orders @ [(clientOid, Buy, price, orderSize)],
                          orderCount + 1,
                          s'\<lparr>cacheManager := addBuyOrder clientOid price orderSize now (cacheManager s'),
                             orderStats := (orderStats s')\<lparr>ordersPlaced := ordersPlaced (orderStats s') + 1\<rparr>\<rparr>))
                 pricesData ([], 0, s)
      in if orders = [] then (0, s1)
         else
           let (placedCount, w) = placeBulkOrders orders (wsManager s1)
           in (placedCount, s1\<lparr>wsManager := w\<rparr>))"

text \<open>
  \<open>handleInsufficientBalance(orderDetails)\<close> is an async function. Its run up to the
  first suspension, including the call of \<open>cancelOrder\<close>, is one step; it leaves the
  wait for the \<open>order_cancelled\<close> event in \<open>cancelWait\<close>, with the delay of the timer
  that rejects the wait. The \<open>finally\<close> block clears the flag on every way out.
\<close>

definition handleInsufficientBalance :: "rat \<Rightarrow> bot \<Rightarrow> bot" where
  "handleInsufficientBalance failedOrderPrice s =
     (if isHandlingInsufficientBalance s then s
      else
        let activeBuyOrders = getActiveBuyOrdersSortedByDistance failedOrderPrice (cacheManager s)
        in if activeBuyOrders = [] then s\<lparr>isHandlingInsufficientBalance := False\<rparr>
           else
             (case filter (\<lambda>(clientOid, order). b_price order < failedOrderPrice) activeBuyOrders of
                [] \<Rightarrow> s\<lparr>isHandlingInsufficientBalance := False\<rparr>
              | furthestOrder # rest \<Rightarrow>
                  let (success, s1) = cancelOrder (fst furthestOrder) (s\<lparr>isHandlingInsufficientBalance := True\<rparr>)
                  in s1\<lparr>cancelWait := Some \<lparr>awaitedOid = fst furthestOrder,
                                              retryPrice = failedOrderPrice,
                                              timeoutMs = 2000\<rparr>\<rparr>))"

text \<open>
  The listener \<open>onOrderCancelled\<close> resolves the wait when the awaited identifier is
  reported cancelled; the function then retries with \<open>placeBuyOrder\<close> and clears the flag.
\<close>

definition onOrderCancelled :: "config \<Rightarrow> string \<Rightarrow> string \<Rightarrow> int \<Rightarrow> bot \<Rightarrow> bot" where
  "onOrderCancelled cfg cancelledOid nonce now s =
     (case cancelWait s of
        None \<Rightarrow> s
      | Some r \<Rightarrow>
          if cancelledOid = awaitedOid r
          then (snd (placeBuyOrder cfg (retryPrice r) nonce now (s\<lparr>cancelWait := None\<rparr>)))
                 \<lparr>isHandlingInsufficientBalance := False\<rparr>
          else s)"

text \<open>The timer fires: the wait is rejected, the error is logged, the flag is cleared.\<close>

definition cancelTimeout :: "bot \<Rightarrow> bot" where
  "cancelTimeout s =
     (case cancelWait s of
        None \<Rightarrow> s
      | Some r \<Rightarrow> s\<lparr>cancelWait := None, isHandlingInsufficientBalance := False\<rparr>)"

section \<open>WebSocketManager: order events\<close>

text \<open>
  An entry of the \<open>orders\<close> channel. \<open>u_price\<close> and \<open>u_size\<close> are \<open>parseFloat(price)\<close> and
  \<open>parseFloat(size)\<close>, NaN when the field is missing; \<open>u_newSize\<close> is
  \<open>newSize ? parseFloat(newSize) : null\<close>, where \<open>null\<close> and NaN behave alike under
  \<open>||\<close>; \<open>u_orderId\<close> is empty when the field is missing.
\<close>

record order_update =
  u_clientOid :: string
  u_status :: string
  u_price :: jsnum
  u_size :: jsnum
  u_newSize :: jsnum
  u_orderId :: string

definition handleOrderUpdate :: "config \<Rightarrow> order_update \<Rightarrow> string \<Rightarrow> int \<Rightarrow> bot \<Rightarrow> bot" where
  "handleOrderUpdate cfg order nonce now s =
     (let clientOid = u_clientOid order;
          priceValue = u_price order;
          sizeValue = u_size order;
          newSizeValue = u_newSize order
      in if clientOid = [] then s
         else if startsWith clientOid ''buy_'' then
           (if u_status order = ''live''
            then s\<lparr>cacheManager := snd (updateOrderStatus clientOid ''live'' Buy now (cacheManager s))\<rparr>
            else if u_status order = ''filled'' then
              let filledSize = js_or newSizeValue sizeValue;
                  orderId = (if u_orderId order = [] then ''unknown'' else u_orderId order);
                  c1 = snd (removeBuyOrder clientOid (cacheManager s));
                  c2 = addFilledBuyOrder priceValue
                         \<lparr>f_orderId = orderId, f_clientOid = clientOid, f_price = priceValue,
                          f_size = filledSize, f_timestamp = now\<rparr> c1
              in handleBuyOrderFilled cfg priceValue clientOid filledSize nonce now (s\<lparr>cacheManager := c2\<rparr>)
            else if u_status order = ''cancelled'' \<or> u_status order = ''canceled'' then
              onOrderCancelled cfg clientOid nonce now
                (s\<lparr>cacheManager := snd (removeBuyOrder clientOid (cacheManager s))\<rparr>)
            else s)
         else if startsWith clientOid ''sell_'' then
           (if u_status order = ''filled'' then
              let buyPrice = js_sub priceValue (priceStep cfg);
                  c1 = snd (removeFilledBuyOrder buyPrice (cacheManager s));
                  c2 = snd (removeSellOrder priceValue c1)
              in handleSellOrderFilled (s\<lparr>cacheManager := c2\<rparr>)
            else if u_status order = ''cancelled'' \<or> u_status order = ''canceled'' then
              (case find (\<lambda>(sellPrice, orderInfo). entryOid orderInfo = clientOid)
                         (sellCurrentOrders (cacheManager s)) of
                 Some (sellPrice, orderInfo) \<Rightarrow>
                   s\<lparr>cacheManager := snd (removeSellOrder sellPrice (cacheManager s))\<rparr>
               | None \<Rightarrow> s)
            else s)
         else s)"

text \<open>
  The error replies of the trading connection: code 429 on \<open>place-order\<close> removes the
  record of the order that was not accepted, code 43001 on \<open>cancel-order\<close> removes the
  buy record of an order the venue no longer knows.
\<close>

definition onTooManyRequests :: "string \<Rightarrow> bot \<Rightarrow> bot" where
  "onTooManyRequests clientOid s =
     (if startsWith clientOid ''buy_''
      then s\<lparr>cacheManager := snd (removeBuyOrder clientOid (cacheManager s))\<rparr>
      else if startsWith clientOid ''sell_'' then
        (case find (\<lambda>(price, orderInfo). entryOid orderInfo = clientOid)
                   (sellCurrentOrders (cacheManager s)) of
           Some (price, orderInfo) \<Rightarrow>
             s\<lparr>cacheManager := snd (removeSellOrder price (cacheManager s))\<rparr>
         | None \<Rightarrow> s)
      else s)"

definition onCancelOrderUnknown :: "string \<Rightarrow> bot \<Rightarrow> bot" where
  "onCancelOrderUnknown clientOid s =
     s\<lparr>cacheManager := snd (removeBuyOrder clientOid (cacheManager s))\<rparr>"

section \<open>Runs of the bot\<close>

text \<open>
  The event loop runs one callback at a time. An input is one such turn: a call of the
  grid strategy into the order manager or the cache, a message of the trading
  connection, a price of the market-data connection, the recovery timer, or a change of
  the trading connection (its two flags and whether the socket accepts writes).
\<close>

datatype input =
    PlaceBuy rat string int
  | PlaceSell rat "rat option" string int
  | BulkBuy "rat list" "nat \<Rightarrow> string" int
  | OrderUpdate order_update string int
  | TooManyRequests string
  | CancelOrderUnknown string
  | InsufficientBalance rat
  | CancelTimeout
  | CleanPending int int
  | EnforceMaxOrders
  | PriceUpdate rat int
  | Connection bool bool bool

fun step :: "config \<Rightarrow> input \<Rightarrow> bot \<Rightarrow> bot" where
  "step cfg (PlaceBuy price nonce now) s = snd (placeBuyOrder cfg price nonce now s)"
| "step cfg (PlaceSell price sz nonce now) s = snd (placeSellOrder cfg price sz nonce now s)"
| "step cfg (BulkBuy pricesData mkNonce now) s = snd (placeBulkBuyOrders cfg pricesData mkNonce now s)"
| "step cfg (OrderUpdate order nonce now) s = handleOrderUpdate cfg order nonce now s"
| "step cfg (TooManyRequests clientOid) s = onTooManyRequests clientOid s"
| "step cfg (CancelOrderUnknown clientOid) s = onCancelOrderUnknown clientOid s"
| "step cfg (InsufficientBalance price) s = handleInsufficientBalance price s"
| "step cfg CancelTimeout s = cancelTimeout s"
| "step cfg (CleanPending maxPendingTimeMs now) s =
     s\<lparr>cacheManager := snd (cleanPendingOrders maxPendingTimeMs now (cacheManager s))\<rparr>"
| "step cfg EnforceMaxOrders s = snd (enforceMaxOrders cfg s)"
| "step cfg (PriceUpdate price now) s = s\<lparr>cacheManager := updatePrice price now (cacheManager s)\<rparr>"
| "step cfg (Connection isConnected isAuth writable) s =
     s\<lparr>wsManager := (wsManager s)\<lparr>privateConnected := isConnected, isAuthenticated := isAuth,
                                    socketOpen := writable\<rparr>\<rparr>"

definition initialBot :: bot where
  "initialBot =
     \<lparr>cacheManager = emptyCache,
      wsManager = \<lparr>privateConnected = True, isAuthenticated = True, socketOpen = True,
                   sent = [], messageQueue = []\<rparr>,
      orderStats = \<lparr>ordersPlaced = 0, ordersCancelled = 0, buyOrdersFilled = 0, sellOrdersFilled = 0\<rparr>,
      isHandlingInsufficientBalance = False,
      cancelWait = None\<rparr>"

definition run :: "config \<Rightarrow> input list \<Rightarrow> bot \<Rightarrow> bot" where
  "run cfg inputs s = fold (step cfg) inputs s"

section \<open>Order manager: splitting placements into waves\<close>

text \<open>
  JavaScript's \<open>Array.prototype.slice(i, j)\<close> for indices \<open>0 \<le> i\<close>, \<open>0 \<le> j\<close>:
  the elements at positions \<open>i, ..., j - 1\<close> that exist (empty when \<open>j \<le> i\<close>).
\<close>

definition slice :: "nat \<Rightarrow> nat \<Rightarrow> 'a list \<Rightarrow> 'a list" where
  "slice i j xs = take (j - i) (drop i xs)"

text \<open>
  The loop \<^verbatim>\<open>for (let i = 0; i < totalOrders; i += perWave) waves.push(ordersData.slice(i, Math.min(i + perWave, totalOrders)))\<close>
  of \<open>generateOptimizedWaves\<close>, with the loop counter and the array under construction as
  arguments. With \<open>perWave = 0\<close> the source never leaves the loop; the model then has no value.
\<close>

partial_function (option) waveLoop :: "nat \<Rightarrow> 'a list \<Rightarrow> nat \<Rightarrow> 'a list list \<Rightarrow> 'a list list option" where
  "waveLoop perWave ordersData i waves =
     (if i < length ordersData
      then waveLoop perWave ordersData (i + perWave)
             (waves @ [slice i (min (i + perWave) (length ordersData)) ordersData])
      else Some waves)"

declare waveLoop.simps [code]

text \<open>
  \<open>OrderManager.generateOptimizedWaves(ordersData, maxPerWave)\<close>. The sizes are array
  lengths, so the arithmetic is on naturals: \<open>lastWaveSize < safeMaxPerWave * 0.25\<close> is
  \<open>4 * lastWaveSize < safeMaxPerWave\<close>, \<open>Math.floor(a / b)\<close> is \<open>a div b\<close> and
  \<open>Math.ceil(a / b)\<close> is \<open>(a + b - 1) div b\<close> for \<open>b \<ge> 1\<close>. For \<open>safeMaxPerWave = 0\<close>
  JavaScript's \<open>%\<close> gives NaN and the test \<open>lastWaveSize > 0\<close> fails; HOL's \<open>mod\<close> gives
  \<open>totalOrders\<close> and the test \<open>4 * lastWaveSize < 0\<close> fails: both take the standard loop.
\<close>

definition generateOptimizedWaves :: "'a list \<Rightarrow> nat \<Rightarrow> 'a list list option" where
  "generateOptimizedWaves ordersData maxPerWave =
     (let totalOrders = length ordersData;
          safeMaxPerWave = min maxPerWave 49
      in if totalOrders \<le> safeMaxPerWave then Some [ordersData]
         else
           let lastWaveSize = totalOrders mod safeMaxPerWave;
               redistributeLastWave = (lastWaveSize > 0 \<and> 4 * lastWaveSize < safeMaxPerWave);
               fullWaves = totalOrders div safeMaxPerWave
           in if redistributeLastWave \<and> fullWaves \<ge> 1
              then
                let ordersPerWave = (totalOrders + fullWaves - 1) div fullWaves;
                    safeOrdersPerWave = min ordersPerWave safeMaxPerWave
                in waveLoop safeOrdersPerWave ordersData 0 []
              else waveLoop safeMaxPerWave ordersData 0 [])"

text \<open>Plain chunking of a list into consecutive pieces of \<open>n\<close> elements, the last one shorter.\<close>

function chunks :: "nat \<Rightarrow> 'a list \<Rightarrow> 'a list list" where
  "chunks n xs = (if n = 0 \<or> xs = [] then [] else take n xs # chunks n (drop n xs))"
  by pat_completeness auto
termination
  by (relation "measure (\<lambda>(n, xs). length xs)") auto



section \<open>Example configurations and states\<close>

text \<open>The parameters of the repository's \<open>config.js\<close>.\<close>

definition exampleConfig :: config where
  "exampleConfig =
     \<lparr>priceStep = 50, maxOrders = 10, orderAmountUSDT = 50, pricePrecision = 0, sizePrecision = 6\<rparr>"

text \<open>
  A cache at time 2000 with an old pending buy, a live buy, a recent pending buy, an old
  pending sell and a sell in the old string format.
\<close>

definition cleanExample :: cache where
  "cleanExample =
     \<lparr>buyCurrentOrders =
        [(''buy_a'', \<lparr>b_price = 100, b_size = Some 1, b_status = ''pending'', b_timestamp = 0\<rparr>),
         (''buy_b'', \<lparr>b_price = 150, b_size = Some 1, b_status = ''live'', b_timestamp = 0\<rparr>),
         (''buy_c'', \<lparr>b_price = 200, b_size = Some 1, b_status = ''pending'', b_timestamp = 1000\<rparr>)],
      sellCurrentOrders =
        [(Some 250, SellInfo \<lparr>s_clientOid = ''sell_a'', s_price = Some 250, s_size = Some 1,
                              s_status = ''pending'', s_timestamp = 0\<rparr>),
         (Some 300, OidString ''sell_old'')],
      buyFilledOrders = [],
      lastPrice = Some 260,
      lastPriceTimestamp = Some 0\<rparr>"

text \<open>A cache whose only order, \<open>buy_1\<close> at 100, has been acknowledged as live.\<close>

definition liveExample :: cache where
  "liveExample =
     snd (updateOrderStatus ''buy_1'' ''live'' Buy 6
            (addBuyOrder ''buy_1'' 100 (Some (1 / 2)) 5 emptyCache))"



text \<open>
  A buy at 10000 has been placed and acknowledged; the venue then reports it filled for
  0.01, and later the sell at 10050 filled.
\<close>

definition fillExample :: bot where
  "fillExample =
     run exampleConfig
       [PlaceBuy 10000 ''1'' 0,
        OrderUpdate \<lparr>u_clientOid = ''buy_1'', u_status = ''live'', u_price = Some 10000,
                     u_size = Some (1 / 100), u_newSize = None, u_orderId = ''77''\<rparr> [] 1]
       initialBot"

definition buyFillEvent :: order_update where
  "buyFillEvent =
     \<lparr>u_clientOid = ''buy_1'', u_status = ''filled'', u_price = Some 10000,
      u_size = Some (1 / 100), u_newSize = None, u_orderId = ''77''\<rparr>"

definition sellFillEvent :: order_update where
  "sellFillEvent =
     \<lparr>u_clientOid = ''sell_2'', u_status = ''filled'', u_price = Some 10050,
      u_size = Some (1 / 100), u_newSize = None, u_orderId = ''78''\<rparr>"

definition requotedExample :: bot where
  "requotedExample = handleOrderUpdate exampleConfig buyFillEvent ''2'' 5 fillExample"

text \<open>The same fill reported with \<open>newSize\<close>: 0.008 of the 0.01 was bought.\<close>

definition partialFillEvent :: order_update where
  "partialFillEvent = buyFillEvent\<lparr>u_newSize := Some (1 / 125)\<rparr>"

text \<open>
  Live buys at 9700, 9750 and 9900, as in the recovery example of the specification; the
  placement at 9800 is the one rejected for insufficient balance.
\<close>

definition liveEvent :: "string \<Rightarrow> rat \<Rightarrow> order_update" where
  "liveEvent clientOid price =
     \<lparr>u_clientOid = clientOid, u_status = ''live'', u_price = Some price,
      u_size = Some (1 / 200), u_newSize = None, u_orderId = []\<rparr>"

definition recoveryExample :: bot where
  "recoveryExample =
     run exampleConfig
       [PlaceBuy 9700 ''1'' 0, PlaceBuy 9750 ''2'' 0, PlaceBuy 9900 ''3'' 0,
        OrderUpdate (liveEvent ''buy_1'' 9700) [] 1, OrderUpdate (liveEvent ''buy_2'' 9750) [] 1,
        OrderUpdate (liveEvent ''buy_3'' 9900) [] 1]
       initialBot"

definition cancelledEvent :: "string \<Rightarrow> rat \<Rightarrow> order_update" where
  "cancelledEvent clientOid price =
     \<lparr>u_clientOid = clientOid, u_status = ''cancelled'', u_price = Some price,
      u_size = Some (1 / 200), u_newSize = None, u_orderId = []\<rparr>"

text \<open>
  The recovery from its beginning: the bot places the buy at 9800 (\<open>buy_4\<close>, recorded as
  pending), the venue rejects it for insufficient balance, and then reports \<open>buy_1\<close>
  cancelled.
\<close>

definition rejectedExample :: bot where
  "rejectedExample =
     run exampleConfig [PlaceBuy 9800 ''4'' 2, InsufficientBalance 9800] recoveryExample"

definition confirmedExample :: bot where
  "confirmedExample =
     run exampleConfig [OrderUpdate (cancelledEvent ''buy_1'' 9700) ''5'' 9] rejectedExample"

text \<open>
  After the buy at 10000 has filled and its sell stands at 10050, a buy is placed at
  10050 (the price has risen above it).
\<close>

definition sameRungExample :: bot where
  "sameRungExample = step exampleConfig (PlaceBuy 10050 ''3'' 7) requotedExample"

text \<open>
  A pending buy at 10000 expires from the cache, a second buy is placed at 10000, and
  then the venue reports the first one filled.
\<close>

definition lateFillExample :: bot where
  "lateFillExample =
     run exampleConfig
       [PlaceBuy 10000 ''1'' 0, CleanPending 1500 2000, PlaceBuy 10000 ''2'' 2001,
        OrderUpdate buyFillEvent ''3'' 2500]
       initialBot"

section \<open>Wave batching\<close>

declare chunks.simps [simp del]

lemma chunks_Nil: "chunks n [] = []"
  by (simp add: chunks.simps)

lemma chunks_step: "0 < n \<Longrightarrow> xs \<noteq> [] \<Longrightarrow> chunks n xs = take n xs # chunks n (drop n xs)"
  by (subst chunks.simps) simp

lemma waveLoop_chunks:
  assumes "0 < n"
  shows "waveLoop n xs i ws = Some (ws @ chunks n (drop i xs))"
proof (induction "length xs - i" arbitrary: i ws rule: less_induct)
  case less
  show ?case
  proof (cases "i < length xs")
    case False
    then show ?thesis by (subst waveLoop.simps) (simp add: chunks_Nil)
  next
    case True
    have "length xs - (i + n) < length xs - i"
      using True assms by arith
    from less [OF this]
    have ih: "waveLoop n xs (i + n) (ws @ [slice i (min (i + n) (length xs)) xs])
                = Some ((ws @ [slice i (min (i + n) (length xs)) xs]) @ chunks n (drop (i + n) xs))" .
    have sl: "slice i (min (i + n) (length xs)) xs = take n (drop i xs)"
      using True by (auto simp: slice_def min_def)
    have ne: "drop i xs \<noteq> []" using True by simp
    have "chunks n (drop i xs) = take n (drop i xs) # chunks n (drop (i + n) xs)"
      using chunks_step [OF assms ne] by (simp add: add.commute)
    with ih sl True show ?thesis
      by (subst waveLoop.simps) simp
  qed
qed

lemma concat_chunks: "0 < n \<Longrightarrow> concat (chunks n xs) = xs"
proof (induction n xs rule: chunks.induct)
  case (1 n xs)
  show ?case
  proof (cases "xs = []")
    case True
    then show ?thesis by (simp add: chunks_Nil)
  next
    case False
    with 1 show ?thesis by (simp add: chunks_step)
  qed
qed

lemma chunks_member: "0 < n \<Longrightarrow> w \<in> set (chunks n xs) \<Longrightarrow> w \<noteq> [] \<and> length w \<le> n"
proof (induction n xs rule: chunks.induct)
  case (1 n xs)
  show ?case
  proof (cases "xs = []")
    case True
    with 1 show ?thesis by (simp add: chunks_Nil)
  next
    case False
    with 1 show ?thesis by (auto simp: chunks_step)
  qed
qed

lemma ceil_clamped:
  assumes "0 < s" "s < t" "1 \<le> t div s"
  shows "min ((t + t div s - 1) div (t div s)) s = (s::nat)"
proof -
  let ?f = "t div s"
  have "?f * s \<le> t" by simp
  then have "?f * s \<le> t + ?f - 1" using assms by arith
  then have "(?f * s) div ?f \<le> (t + ?f - 1) div ?f" by (rule div_le_mono)
  moreover have "(?f * s) div ?f = s" using assms by simp
  ultimately show ?thesis by simp
qed

lemma generateOptimizedWaves_chunks:
  assumes "1 \<le> maxPerWave"
  shows "generateOptimizedWaves ordersData maxPerWave =
           Some (if length ordersData \<le> min maxPerWave 49 then [ordersData]
                 else chunks (min maxPerWave 49) ordersData)"
proof -
  define s where "s = min maxPerWave 49"
  have pos: "0 < s" using assms by (simp add: s_def)
  have fold_s: "min maxPerWave 49 = s" by (simp add: s_def)
  show ?thesis
  proof (cases "length ordersData \<le> s")
    case True
    then show ?thesis
      unfolding generateOptimizedWaves_def Let_def fold_s by simp
  next
    case False
    then have lt: "s < length ordersData" by (simp only: not_le)
    have full: "1 \<le> length ordersData div s"
      using lt pos by (metis One_nat_def Suc_leI div_greater_zero_iff less_imp_le_nat)
    have wl: "waveLoop s ordersData 0 [] = Some (chunks s ordersData)"
      using waveLoop_chunks [OF pos, of ordersData 0 "[]"] by simp
    have cc: "min ((length ordersData + length ordersData div s - 1) div (length ordersData div s)) s = s"
      by (rule ceil_clamped [OF pos lt full])
    show ?thesis
      unfolding generateOptimizedWaves_def Let_def fold_s cc
      using False wl by simp
  qed
qed

text \<open>
  Claim C2. Splitting 100 orders with a cap of 49 should give waves whose sizes sum to 100,
  none above 49, with the last wave not below a quarter of the cap (for example 34/33/33)
  rather than 49/49/2. The source computes the new wave size as
  \<open>Math.ceil(totalOrders / fullWaves)\<close>, which always exceeds the cap and is clamped
  back to it (lemma \<open>generateOptimizedWaves_chunks\<close>): on 100 orders it returns waves
  of 49, 49 and 2.
\<close>

theorem generateOptimizedWaves_100_cap_49:
  "map_option (map length) (generateOptimizedWaves [0..<100::nat] 49) = Some [49, 49, 2]"
  by code_simp

text \<open>
  Claim C9, as stated, at the empty list: the single wave returned is the empty list.
\<close>

theorem generateOptimizedWaves_empty_input:
  "map_option (map length) (generateOptimizedWaves ([]::nat list) 49) = Some [0]"
  by code_simp

text \<open>
  Claim C9 (amended). For every list \<open>l\<close> and every cap \<open>c \<ge> 1\<close>,
  \<open>generateOptimizedWaves\<close> returns waves that concatenate back to \<open>l\<close>, none
  longer than \<open>min c 49\<close>; every wave is non-empty when \<open>l\<close> is non-empty, and
  for the empty list the result is the single empty wave.
\<close>

theorem generateOptimizedWaves_partition:
  assumes "1 \<le> c"
  shows "\<exists>ws. generateOptimizedWaves l c = Some ws \<and> concat ws = l
              \<and> (\<forall>w \<in> set ws. length w \<le> min c 49)
              \<and> (l \<noteq> [] \<longrightarrow> (\<forall>w \<in> set ws. w \<noteq> []))
              \<and> (l = [] \<longrightarrow> ws = [[]])"
proof -
  have pos: "0 < min c 49" using assms by simp
  show ?thesis
  proof (cases "length l \<le> min c 49")
    case True
    then show ?thesis
      by (simp add: generateOptimizedWaves_chunks [OF assms])
  next
    case False
    then have "l \<noteq> []" by auto
    with False show ?thesis
      using concat_chunks [OF pos, of l] chunks_member [OF pos, of _ l]
      by (auto simp: generateOptimizedWaves_chunks [OF assms])
  qed
qed

theorem generateOptimizedWaves_partition_witness:
  "(1::nat) \<le> 2 \<and> (\<exists>ws. generateOptimizedWaves [7, 8, 9::nat] 2 = Some ws \<and> concat ws = [7, 8, 9]
              \<and> (\<forall>w \<in> set ws. length w \<le> min 2 49)
              \<and> ([7, 8, 9::nat] \<noteq> [] \<longrightarrow> (\<forall>w \<in> set ws. w \<noteq> []))
              \<and> ([7, 8, 9::nat] = [] \<longrightarrow> ws = [[]]))"
  using generateOptimizedWaves_partition [of 2 "[7, 8, 9::nat]"] by simp

section \<open>CacheManager: expiry of pending orders\<close>

lemma delete_filter: "AList.delete k m = filter (\<lambda>(k', v). k' \<noteq> k) m"
  by (auto simp: AList.delete_eq intro: filter_cong)

lemma fold_delete_expired:
  "fold (\<lambda>(k, v) (m, n). if P v then (AList.delete k m, n + 1) else (m, n)) xs (m0, n0)
     = (filter (\<lambda>(k, v). k \<notin> fst ` {e \<in> set xs. P (snd e)}) m0,
        n0 + length (filter (\<lambda>(k, v). P v) xs))"
proof (induction xs arbitrary: m0 n0)
  case Nil
  then show ?case by simp
next
  case (Cons x xs)
  obtain k v where x: "x = (k, v)" by (cases x)
  show ?case
  proof (cases "P v")
    case True
    have keys: "fst ` {e \<in> set (x # xs). P (snd e)} = insert k (fst ` {e \<in> set xs. P (snd e)})"
      using True x by force
    have "filter (\<lambda>(k', v'). k' \<notin> fst ` {e \<in> set xs. P (snd e)}) (AList.delete k m0)
            = filter (\<lambda>(k', v'). k' \<notin> fst ` {e \<in> set (x # xs). P (snd e)}) m0"
      unfolding keys by (auto simp: delete_filter intro!: filter_cong)
    with True x Cons.IH [of "AList.delete k m0" "n0 + 1"] show ?thesis by simp
  next
    case False
    have "{e \<in> set (x # xs). P (snd e)} = {e \<in> set xs. P (snd e)}"
      using False x by auto
    with False x Cons.IH [of m0 n0] show ?thesis by simp
  qed
qed

lemma filter_expired_keys:
  assumes "distinct (map fst m)"
  shows "filter (\<lambda>(k, v). k \<notin> fst ` {e \<in> set m. P (snd e)}) m = filter (\<lambda>(k, v). \<not> P v) m"
proof (rule filter_cong [OF refl])
  fix x assume xin: "x \<in> set m"
  obtain k v where x: "x = (k, v)" by (cases x)
  have "k \<in> fst ` {e \<in> set m. P (snd e)} \<longleftrightarrow> P v"
  proof
    assume "k \<in> fst ` {e \<in> set m. P (snd e)}"
    then obtain v' where "(k, v') \<in> set m" "P v'" by force
    with assms xin x have "v' = v" by (metis eq_key_imp_eq_value)
    with \<open>P v'\<close> show "P v" by simp
  next
    assume "P v"
    with xin x show "k \<in> fst ` {e \<in> set m. P (snd e)}" by force
  qed
  then show "(case x of (k, v) \<Rightarrow> k \<notin> fst ` {e \<in> set m. P (snd e)}) = (case x of (k, v) \<Rightarrow> \<not> P v)"
    using x by simp
qed

lemma fold_delete_self:
  assumes "distinct (map fst m)"
  shows "fold (\<lambda>(k, v) (m', n). if P v then (AList.delete k m', n + 1) else (m', n)) m (m, n0)
           = (filter (\<lambda>(k, v). \<not> P v) m, n0 + length (filter (\<lambda>(k, v). P v) m))"
  by (simp add: fold_delete_expired filter_expired_keys [OF assms])

lemma length_filter_split:
  "length (filter (\<lambda>(k, v). P v) m) + length (filter (\<lambda>(k, v). \<not> P v) m) = length m"
  by (induction m) auto

text \<open>
  Claim C10. \<open>cleanPendingOrders(maxAgeMs)\<close> removes exactly the entries that are
  pending and older than \<open>maxAgeMs\<close>: the buy and sell maps keep every other entry
  (live orders, recent pending orders, sells in the old string format) in place and
  unchanged, nothing else of the cache changes, and the number returned is the number of
  entries removed. The maps are JavaScript Maps, so their keys are distinct.
\<close>

theorem cleanPendingOrders_frame:
  assumes "distinct (map fst (buyCurrentOrders c))"
      and "distinct (map fst (sellCurrentOrders c))"
  shows "buyCurrentOrders (snd (cleanPendingOrders maxPendingTimeMs now c))
           = filter (\<lambda>(clientOid, orderInfo). \<not> buyExpired maxPendingTimeMs now orderInfo) (buyCurrentOrders c)
       \<and> sellCurrentOrders (snd (cleanPendingOrders maxPendingTimeMs now c))
           = filter (\<lambda>(price, orderInfo). \<not> sellExpired maxPendingTimeMs now orderInfo) (sellCurrentOrders c)
       \<and> buyFilledOrders (snd (cleanPendingOrders maxPendingTimeMs now c)) = buyFilledOrders c
       \<and> lastPrice (snd (cleanPendingOrders maxPendingTimeMs now c)) = lastPrice c
       \<and> lastPriceTimestamp (snd (cleanPendingOrders maxPendingTimeMs now c)) = lastPriceTimestamp c
       \<and> fst (cleanPendingOrders maxPendingTimeMs now c)
           = length (filter (\<lambda>(clientOid, orderInfo). buyExpired maxPendingTimeMs now orderInfo) (buyCurrentOrders c))
             + length (filter (\<lambda>(price, orderInfo). sellExpired maxPendingTimeMs now orderInfo) (sellCurrentOrders c))
       \<and> fst (cleanPendingOrders maxPendingTimeMs now c)
             + length (buyCurrentOrders (snd (cleanPendingOrders maxPendingTimeMs now c)))
             + length (sellCurrentOrders (snd (cleanPendingOrders maxPendingTimeMs now c)))
           = length (buyCurrentOrders c) + length (sellCurrentOrders c)"
proof -
  have eq: "cleanPendingOrders maxPendingTimeMs now c =
          (length (filter (\<lambda>(clientOid, orderInfo). buyExpired maxPendingTimeMs now orderInfo) (buyCurrentOrders c))
             + length (filter (\<lambda>(price, orderInfo). sellExpired maxPendingTimeMs now orderInfo) (sellCurrentOrders c)),
           c\<lparr>buyCurrentOrders := filter (\<lambda>(clientOid, orderInfo). \<not> buyExpired maxPendingTimeMs now orderInfo) (buyCurrentOrders c),
             sellCurrentOrders := filter (\<lambda>(price, orderInfo). \<not> sellExpired maxPendingTimeMs now orderInfo) (sellCurrentOrders c)\<rparr>)"
    unfolding cleanPendingOrders_def
    by (simp add: fold_delete_self [OF assms(1)] fold_delete_self [OF assms(2)])
  show ?thesis
    using length_filter_split [of "buyExpired maxPendingTimeMs now" "buyCurrentOrders c"]
          length_filter_split [of "sellExpired maxPendingTimeMs now" "sellCurrentOrders c"]
    by (simp add: eq)
qed


theorem cleanPendingOrders_frame_witness:
  "distinct (map fst (buyCurrentOrders cleanExample))
   \<and> distinct (map fst (sellCurrentOrders cleanExample))
   \<and> (buyCurrentOrders (snd (cleanPendingOrders 1500 2000 cleanExample))
           = filter (\<lambda>(clientOid, orderInfo). \<not> buyExpired 1500 2000 orderInfo) (buyCurrentOrders cleanExample)
       \<and> sellCurrentOrders (snd (cleanPendingOrders 1500 2000 cleanExample))
           = filter (\<lambda>(price, orderInfo). \<not> sellExpired 1500 2000 orderInfo) (sellCurrentOrders cleanExample)
       \<and> buyFilledOrders (snd (cleanPendingOrders 1500 2000 cleanExample)) = buyFilledOrders cleanExample
       \<and> lastPrice (snd (cleanPendingOrders 1500 2000 cleanExample)) = lastPrice cleanExample
       \<and> lastPriceTimestamp (snd (cleanPendingOrders 1500 2000 cleanExample)) = lastPriceTimestamp cleanExample
       \<and> fst (cleanPendingOrders 1500 2000 cleanExample)
           = length (filter (\<lambda>(clientOid, orderInfo). buyExpired 1500 2000 orderInfo) (buyCurrentOrders cleanExample))
             + length (filter (\<lambda>(price, orderInfo). sellExpired 1500 2000 orderInfo) (sellCurrentOrders cleanExample))
       \<and> fst (cleanPendingOrders 1500 2000 cleanExample)
             + length (buyCurrentOrders (snd (cleanPendingOrders 1500 2000 cleanExample)))
             + length (sellCurrentOrders (snd (cleanPendingOrders 1500 2000 cleanExample)))
           = length (buyCurrentOrders cleanExample) + length (sellCurrentOrders cleanExample))"
proof -
  have h1: "distinct (map fst (buyCurrentOrders cleanExample))"
    by (simp add: cleanExample_def)
  have h2: "distinct (map fst (sellCurrentOrders cleanExample))"
    by (simp add: cleanExample_def)
  show ?thesis
    by (rule conjI [OF h1 conjI [OF h2 cleanPendingOrders_frame [OF h1 h2]]])
qed

text \<open>The example, evaluated: the old pending buy and the old pending sell go, two are counted.\<close>

lemma cleanPendingOrders_example:
  "fst (cleanPendingOrders 1500 2000 cleanExample) = 2
   \<and> map fst (buyCurrentOrders (snd (cleanPendingOrders 1500 2000 cleanExample))) = [''buy_b'', ''buy_c'']
   \<and> map fst (sellCurrentOrders (snd (cleanPendingOrders 1500 2000 cleanExample))) = [Some 300]"
  by code_simp

section \<open>CacheManager: recording and transitions of buy orders\<close>

lemma length_update:
  "length (AList.update k v m) = (if k \<in> fst ` set m then length m else length m + 1)"
  by (induction m) auto

lemma map_fst_update_present:
  "k \<in> fst ` set m \<Longrightarrow> map fst (AList.update k v m) = map fst m"
  by (induction m) auto

lemma length_delete_distinct:
  "distinct (map fst m) \<Longrightarrow> map_of m k = Some v \<Longrightarrow> length (AList.delete k m) + 1 = length m"
proof (induction m)
  case Nil
  then show ?case by simp
next
  case (Cons x m)
  obtain k' v' where x: "x = (k', v')" by (cases x)
  show ?case
  proof (cases "k' = k")
    case True
    with Cons.prems x have "k \<notin> fst ` set m" by auto
    with True x show ?thesis by simp
  next
    case False
    with Cons x show ?thesis by simp
  qed
qed

text \<open>
  Claim C7, as stated, on a cache where \<open>buy_1\<close> is live at 100: adding \<open>buy_1\<close>
  again raises nothing and replaces the record by a pending one at 200.
\<close>

theorem addBuyOrder_duplicate_overwrites:
  "buyCurrentOrders liveExample
     = [(''buy_1'', \<lparr>b_price = 100, b_size = Some (1 / 2), b_status = ''live'', b_timestamp = 5\<rparr>)]
   \<and> buyCurrentOrders (addBuyOrder ''buy_1'' 200 (Some (1 / 4)) 9 liveExample)
     = [(''buy_1'', \<lparr>b_price = 200, b_size = Some (1 / 4), b_status = ''pending'', b_timestamp = 9\<rparr>)]"
  by code_simp

text \<open>
  Claim C7 (amended). \<open>addBuyOrder\<close> never fails: it maps the identifier to a new
  record with status pending and leaves every other identifier and the rest of the cache
  as they were. An identifier already in the map keeps its position and the map keeps its
  size (the old record is replaced); a new identifier makes the map one longer.
\<close>

theorem addBuyOrder_sets_pending:
  "map_of (buyCurrentOrders (addBuyOrder clientOid price sz now c))
     = (map_of (buyCurrentOrders c))
         (clientOid \<mapsto> \<lparr>b_price = price, b_size = sz, b_status = ''pending'', b_timestamp = now\<rparr>)
   \<and> length (buyCurrentOrders (addBuyOrder clientOid price sz now c))
     = (if clientOid \<in> fst ` set (buyCurrentOrders c) then length (buyCurrentOrders c)
        else length (buyCurrentOrders c) + 1)
   \<and> sellCurrentOrders (addBuyOrder clientOid price sz now c) = sellCurrentOrders c
   \<and> buyFilledOrders (addBuyOrder clientOid price sz now c) = buyFilledOrders c
   \<and> lastPrice (addBuyOrder clientOid price sz now c) = lastPrice c
   \<and> lastPriceTimestamp (addBuyOrder clientOid price sz now c) = lastPriceTimestamp c"
  by (simp add: addBuyOrder_def update_conv' length_update)

lemma removeBuyOrder_absent:
  "map_of (buyCurrentOrders c) clientOid = None \<Longrightarrow> removeBuyOrder clientOid c = (None, c)"
  by (simp add: removeBuyOrder_def)

lemma removeBuyOrder_present:
  "map_of (buyCurrentOrders c) clientOid = Some order \<Longrightarrow>
     removeBuyOrder clientOid c
       = (Some order, c\<lparr>buyCurrentOrders := AList.delete clientOid (buyCurrentOrders c)\<rparr>)"
  by (simp add: removeBuyOrder_def)

lemma removeBuyOrder_twice:
  "removeBuyOrder clientOid (snd (removeBuyOrder clientOid c)) = (None, snd (removeBuyOrder clientOid c))"
proof (cases "map_of (buyCurrentOrders c) clientOid")
  case None
  then show ?thesis by (simp add: removeBuyOrder_absent)
next
  case (Some order)
  have "map_of (AList.delete clientOid (buyCurrentOrders c)) clientOid = None"
    by (simp add: delete_conv')
  then show ?thesis
    by (simp add: removeBuyOrder_present [OF Some] removeBuyOrder_absent)
qed

text \<open>
  The two operations of the store on the status of a buy order. On an absent identifier
  both change nothing. On a present identifier \<open>updateOrderStatus\<close> sets the status of
  that order only, whatever the status, and keeps the order in the map;
  \<open>removeBuyOrder\<close> returns the record and removes it, making the map one shorter.
  Removing again returns nothing and leaves the store as it is.
\<close>

lemma store_transitions:
  "(map_of (buyCurrentOrders c) clientOid = None \<longrightarrow>
      updateOrderStatus clientOid newStatus Buy now c = (False, c)
      \<and> removeBuyOrder clientOid c = (None, c))
   \<and> (\<forall>order. map_of (buyCurrentOrders c) clientOid = Some order \<longrightarrow>
        fst (updateOrderStatus clientOid newStatus Buy now c) = True
        \<and> map_of (buyCurrentOrders (snd (updateOrderStatus clientOid newStatus Buy now c)))
            = (map_of (buyCurrentOrders c))(clientOid \<mapsto> order\<lparr>b_status := newStatus\<rparr>)
        \<and> map fst (buyCurrentOrders (snd (updateOrderStatus clientOid newStatus Buy now c)))
            = map fst (buyCurrentOrders c)
        \<and> fst (removeBuyOrder clientOid c) = Some order
        \<and> map_of (buyCurrentOrders (snd (removeBuyOrder clientOid c)))
            = (map_of (buyCurrentOrders c))(clientOid := None)
        \<and> (distinct (map fst (buyCurrentOrders c)) \<longrightarrow>
             length (buyCurrentOrders (snd (removeBuyOrder clientOid c))) + 1
               = length (buyCurrentOrders c)))
   \<and> removeBuyOrder clientOid (snd (removeBuyOrder clientOid c))
       = (None, snd (removeBuyOrder clientOid c))
   \<and> sellCurrentOrders (snd (removeBuyOrder clientOid c)) = sellCurrentOrders c
   \<and> buyFilledOrders (snd (removeBuyOrder clientOid c)) = buyFilledOrders c
   \<and> sellCurrentOrders (snd (updateOrderStatus clientOid newStatus Buy now c)) = sellCurrentOrders c
   \<and> buyFilledOrders (snd (updateOrderStatus clientOid newStatus Buy now c)) = buyFilledOrders c"
proof -
  have absent: "map_of (buyCurrentOrders c) clientOid = None \<longrightarrow>
      updateOrderStatus clientOid newStatus Buy now c = (False, c)
      \<and> removeBuyOrder clientOid c = (None, c)"
    by (simp add: updateOrderStatus_def removeBuyOrder_def)
  have present: "\<forall>order. map_of (buyCurrentOrders c) clientOid = Some order \<longrightarrow>
        fst (updateOrderStatus clientOid newStatus Buy now c) = True
        \<and> map_of (buyCurrentOrders (snd (updateOrderStatus clientOid newStatus Buy now c)))
            = (map_of (buyCurrentOrders c))(clientOid \<mapsto> order\<lparr>b_status := newStatus\<rparr>)
        \<and> map fst (buyCurrentOrders (snd (updateOrderStatus clientOid newStatus Buy now c)))
            = map fst (buyCurrentOrders c)
        \<and> fst (removeBuyOrder clientOid c) = Some order
        \<and> map_of (buyCurrentOrders (snd (removeBuyOrder clientOid c)))
            = (map_of (buyCurrentOrders c))(clientOid := None)
        \<and> (distinct (map fst (buyCurrentOrders c)) \<longrightarrow>
             length (buyCurrentOrders (snd (removeBuyOrder clientOid c))) + 1
               = length (buyCurrentOrders c))"
  proof (intro allI impI)
    fix order assume some: "map_of (buyCurrentOrders c) clientOid = Some order"
    then have key: "clientOid \<in> fst ` set (buyCurrentOrders c)"
      by (metis map_of_eq_None_iff option.distinct(1))
    show "fst (updateOrderStatus clientOid newStatus Buy now c) = True
        \<and> map_of (buyCurrentOrders (snd (updateOrderStatus clientOid newStatus Buy now c)))
            = (map_of (buyCurrentOrders c))(clientOid \<mapsto> order\<lparr>b_status := newStatus\<rparr>)
        \<and> map fst (buyCurrentOrders (snd (updateOrderStatus clientOid newStatus Buy now c)))
            = map fst (buyCurrentOrders c)
        \<and> fst (removeBuyOrder clientOid c) = Some order
        \<and> map_of (buyCurrentOrders (snd (removeBuyOrder clientOid c)))
            = (map_of (buyCurrentOrders c))(clientOid := None)
        \<and> (distinct (map fst (buyCurrentOrders c)) \<longrightarrow>
             length (buyCurrentOrders (snd (removeBuyOrder clientOid c))) + 1
               = length (buyCurrentOrders c))"
      using some key length_delete_distinct [of "buyCurrentOrders c" clientOid order]
      by (simp add: updateOrderStatus_def removeBuyOrder_def update_conv' delete_conv'
                    map_fst_update_present)
  qed
  have frame: "sellCurrentOrders (snd (removeBuyOrder clientOid c)) = sellCurrentOrders c
   \<and> buyFilledOrders (snd (removeBuyOrder clientOid c)) = buyFilledOrders c
   \<and> sellCurrentOrders (snd (updateOrderStatus clientOid newStatus Buy now c)) = sellCurrentOrders c
   \<and> buyFilledOrders (snd (updateOrderStatus clientOid newStatus Buy now c)) = buyFilledOrders c"
    by (simp add: updateOrderStatus_def removeBuyOrder_def split: option.split)
  show ?thesis
    using absent present removeBuyOrder_twice [of clientOid c] frame by blast
qed

section \<open>OrderManager: cancelling buy orders in excess\<close>














section \<open>Fill events\<close>

lemma startsWith_nonempty: "startsWith s (p # ps) \<Longrightarrow> s \<noteq> []"
  by (auto simp: startsWith_def)

lemma startsWith_sell_not_buy: "startsWith s ''sell_'' \<Longrightarrow> \<not> startsWith s ''buy_''"
  by (cases s) (auto simp: startsWith_def)

lemma handleOrderUpdate_buy_filled:
  assumes "startsWith (u_clientOid order) ''buy_''" "u_status order = ''filled''"
  shows "handleOrderUpdate cfg order nonce now s =
           handleBuyOrderFilled cfg (u_price order) (u_clientOid order)
             (js_or (u_newSize order) (u_size order)) nonce now
             (s\<lparr>cacheManager :=
                  addFilledBuyOrder (u_price order)
                    \<lparr>f_orderId = (if u_orderId order = [] then ''unknown'' else u_orderId order),
                     f_clientOid = u_clientOid order, f_price = u_price order,
                     f_size = js_or (u_newSize order) (u_size order), f_timestamp = now\<rparr>
                    (snd (removeBuyOrder (u_clientOid order) (cacheManager s)))\<rparr>)"
  using assms startsWith_nonempty [OF assms(1)]
  by (simp add: handleOrderUpdate_def Let_def)

lemma handleOrderUpdate_sell_filled:
  assumes "startsWith (u_clientOid order) ''sell_''" "u_status order = ''filled''"
  shows "handleOrderUpdate cfg order nonce now s =
           handleSellOrderFilled
             (s\<lparr>cacheManager :=
                  snd (removeSellOrder (u_price order)
                         (snd (removeFilledBuyOrder (js_sub (u_price order) (priceStep cfg))
                                                    (cacheManager s))))\<rparr>)"
  using assms startsWith_nonempty [OF assms(1)] startsWith_sell_not_buy [OF assms(1)]
  by (simp add: handleOrderUpdate_def Let_def)

lemma placeOrder_ready:
  "privateConnected w \<Longrightarrow> isAuthenticated w \<Longrightarrow> socketOpen w \<Longrightarrow>
     placeOrder clientOid sd price sz w
       = (Some clientOid, w\<lparr>sent := sent w @ [PlaceOrderMsg clientOid sd price sz]\<rparr>)"
  by (simp add: placeOrder_def)

lemma placeSellOrder_ready:
  assumes "privateConnected (wsManager s)" "isAuthenticated (wsManager s)" "socketOpen (wsManager s)"
  shows "placeSellOrder cfg price (Some z) nonce now s =
           (''sell_'' @ nonce,
            s\<lparr>cacheManager :=
                 (cacheManager s)\<lparr>sellCurrentOrders :=
                    AList.update (Some price)
                      (SellInfo \<lparr>s_clientOid = ''sell_'' @ nonce, s_price = Some price, s_size = Some z,
                                 s_status = ''pending'', s_timestamp = now\<rparr>)
                      (sellCurrentOrders (cacheManager s))\<rparr>,
              wsManager := (wsManager s)\<lparr>sent := sent (wsManager s)
                              @ [PlaceOrderMsg (''sell_'' @ nonce) Sell price (Some z)]\<rparr>,
              orderStats := (orderStats s)\<lparr>ordersPlaced := ordersPlaced (orderStats s) + 1\<rparr>\<rparr>)"
  by (simp add: placeSellOrder_def Let_def placeOrder_ready [OF assms] addSellOrder_def)

lemma handleBuyOrderFilled_valid:
  assumes "P \<noteq> 0" "S \<noteq> 0"
  shows "handleBuyOrderFilled cfg (Some P) clientOid (Some S) nonce now s =
           snd (placeSellOrder cfg (toFixed (P + priceStep cfg) (pricePrecision cfg)) (Some S) nonce now
                  (s\<lparr>orderStats := (orderStats s)\<lparr>buyOrdersFilled := buyOrdersFilled (orderStats s) + 1\<rparr>\<rparr>))"
  using assms by (simp add: handleBuyOrderFilled_def Let_def)

lemma removeFilledBuyOrder_absent_after:
  "map_of (buyFilledOrders (snd (removeFilledBuyOrder price c))) price = None"
  by (simp add: removeFilledBuyOrder_def delete_conv' split: option.split)

lemma removeSellOrder_filled_unchanged:
  "buyFilledOrders (snd (removeSellOrder price c)) = buyFilledOrders c"
  by (simp add: removeSellOrder_def split: option.split)

lemma sell_fill_clears_record:
  assumes "startsWith (u_clientOid order) ''sell_''" "u_status order = ''filled''"
      and "u_price order = Some (P + priceStep cfg)"
  shows "map_of (buyFilledOrders (cacheManager (handleOrderUpdate cfg order nonce now s))) (Some P) = None"
  using assms(3)
  by (simp add: handleOrderUpdate_sell_filled [OF assms(1,2)] handleSellOrderFilled_def js_sub_def
                removeSellOrder_filled_unchanged removeFilledBuyOrder_absent_after)

lemma buy_fill_state:
  assumes "privateConnected (wsManager s)" "isAuthenticated (wsManager s)" "socketOpen (wsManager s)"
      and "startsWith (u_clientOid order) ''buy_''" "u_status order = ''filled''"
      and "u_price order = Some P" "P \<noteq> 0"
      and "js_or (u_newSize order) (u_size order) = Some S" "S \<noteq> 0"
      and "toFixed (P + priceStep cfg) (pricePrecision cfg) = P + priceStep cfg"
  shows "handleOrderUpdate cfg order nonce now s =
     s\<lparr>cacheManager :=
          (cacheManager s)
            \<lparr>buyCurrentOrders := AList.delete (u_clientOid order) (buyCurrentOrders (cacheManager s)),
             buyFilledOrders :=
               AList.update (Some P)
                 \<lparr>f_orderId = (if u_orderId order = [] then ''unknown'' else u_orderId order),
                  f_clientOid = u_clientOid order, f_price = Some P, f_size = Some S, f_timestamp = now\<rparr>
                 (buyFilledOrders (cacheManager s)),
             sellCurrentOrders :=
               AList.update (Some (P + priceStep cfg))
                 (SellInfo \<lparr>s_clientOid = ''sell_'' @ nonce, s_price = Some (P + priceStep cfg),
                            s_size = Some S, s_status = ''pending'', s_timestamp = now\<rparr>)
                 (sellCurrentOrders (cacheManager s))\<rparr>,
        wsManager := (wsManager s)\<lparr>sent := sent (wsManager s)
                        @ [PlaceOrderMsg (''sell_'' @ nonce) Sell (P + priceStep cfg) (Some S)]\<rparr>,
        orderStats := (orderStats s)\<lparr>buyOrdersFilled := buyOrdersFilled (orderStats s) + 1,
                                      ordersPlaced := ordersPlaced (orderStats s) + 1\<rparr>\<rparr>"
proof -
  let ?c1 = "snd (removeBuyOrder (u_clientOid order) (cacheManager s))"
  have c1: "?c1 = (cacheManager s)\<lparr>buyCurrentOrders :=
                     AList.delete (u_clientOid order) (buyCurrentOrders (cacheManager s))\<rparr>"
  proof (cases "map_of (buyCurrentOrders (cacheManager s)) (u_clientOid order)")
    case None
    then have "u_clientOid order \<notin> fst ` set (buyCurrentOrders (cacheManager s))"
      by (simp add: map_of_eq_None_iff)
    then have "AList.delete (u_clientOid order) (buyCurrentOrders (cacheManager s))
                 = buyCurrentOrders (cacheManager s)"
      by (rule delete_id)
    with None show ?thesis by (simp add: removeBuyOrder_def)
  next
    case (Some a)
    then show ?thesis by (simp add: removeBuyOrder_def)
  qed
  show ?thesis
    unfolding handleOrderUpdate_buy_filled [OF assms(4,5)] assms(6) assms(8)
              handleBuyOrderFilled_valid [OF assms(7,9)] assms(10) c1
    by (subst placeSellOrder_ready) (simp_all add: assms(1-3) addFilledBuyOrder_def)
qed

lemma floor_half: "\<lfloor>(of_int n :: rat) + 1 / 2\<rfloor> = n"
  by (rule floor_unique) simp_all

lemma toFixed_of_int: "toFixed (of_int k) d = of_int k"
proof (cases "(of_int k :: rat) < 0")
  case True
  have "(- (of_int k :: rat)) * 10 ^ d + 1 / 2 = of_int (- k * 10 ^ d) + 1 / 2" by simp
  then have "\<lfloor>(- (of_int k :: rat)) * 10 ^ d + 1 / 2\<rfloor> = - k * 10 ^ d"
    by (simp only: floor_half)
  with True show ?thesis by (simp add: toFixed_def)
next
  case False
  have "(of_int k :: rat) * 10 ^ d + 1 / 2 = of_int (k * 10 ^ d) + 1 / 2" by simp
  then have "\<lfloor>(of_int k :: rat) * 10 ^ d + 1 / 2\<rfloor> = k * 10 ^ d"
    by (simp only: floor_half)
  with False show ?thesis by (simp add: toFixed_def)
qed

lemma toFixed_safe_integer:
  assumes "isSafeInteger x"
  shows "toFixed x d = x"
proof -
  have "of_int \<lfloor>x\<rfloor> = x" using assms unfolding isSafeInteger_def by (rule conjunct1)
  with toFixed_of_int [of "\<lfloor>x\<rfloor>" d] show ?thesis by (simp only:)
qed

lemma filled_size:
  assumes "S \<noteq> 0"
      and "newSize = Some S \<or> (newSize = None \<or> newSize = Some 0) \<and> sz = Some S"
  shows "js_or newSize sz = Some S"
  using assms by (auto simp: js_or_def truthy_def)

text \<open>
  Claim C5. With the trading connection ready, a fill event for a buy order at price
  \<open>P\<close> with filled size \<open>S\<close> (the event's \<open>newSize\<close> when it has a non-zero one,
  its \<open>size\<close> otherwise), \<open>P\<close>, the step and \<open>P + step\<close> being safe integers,
  writes exactly one message to the socket, a sell at \<open>P + step\<close> for size \<open>S\<close>,
  records that sell as pending, records a FilledBuyRecord under \<open>P\<close>, removes the buy
  order and counts the fill. In any later state a fill event for a sell at \<open>P + step\<close>
  leaves no FilledBuyRecord under \<open>P\<close>.
\<close>

theorem buy_fill_requotes:
  assumes "privateConnected (wsManager s)" "isAuthenticated (wsManager s)" "socketOpen (wsManager s)"
      and "startsWith (u_clientOid order) ''buy_''" "u_status order = ''filled''"
      and "u_price order = Some P" "P \<noteq> 0"
      and "S \<noteq> 0"
      and "u_newSize order = Some S
           \<or> (u_newSize order = None \<or> u_newSize order = Some 0) \<and> u_size order = Some S"
      and "isSafeInteger P" "isSafeInteger (priceStep cfg)" "isSafeInteger (P + priceStep cfg)"
  shows "sent (wsManager (handleOrderUpdate cfg order nonce now s))
           = sent (wsManager s) @ [PlaceOrderMsg (''sell_'' @ nonce) Sell (P + priceStep cfg) (Some S)]
       \<and> messageQueue (wsManager (handleOrderUpdate cfg order nonce now s)) = messageQueue (wsManager s)
       \<and> map_of (sellCurrentOrders (cacheManager (handleOrderUpdate cfg order nonce now s)))
            (Some (P + priceStep cfg))
           = Some (SellInfo \<lparr>s_clientOid = ''sell_'' @ nonce, s_price = Some (P + priceStep cfg),
                             s_size = Some S, s_status = ''pending'', s_timestamp = now\<rparr>)
       \<and> map_of (buyFilledOrders (cacheManager (handleOrderUpdate cfg order nonce now s))) (Some P)
           = Some \<lparr>f_orderId = (if u_orderId order = [] then ''unknown'' else u_orderId order),
                   f_clientOid = u_clientOid order, f_price = Some P, f_size = Some S,
                   f_timestamp = now\<rparr>
       \<and> map_of (buyCurrentOrders (cacheManager (handleOrderUpdate cfg order nonce now s)))
            (u_clientOid order) = None
       \<and> buyOrdersFilled (orderStats (handleOrderUpdate cfg order nonce now s))
           = buyOrdersFilled (orderStats s) + 1
       \<and> (\<forall>order2 nonce2 now2 s2.
             startsWith (u_clientOid order2) ''sell_'' \<and> u_status order2 = ''filled''
             \<and> u_price order2 = Some (P + priceStep cfg) \<longrightarrow>
             map_of (buyFilledOrders (cacheManager (handleOrderUpdate cfg order2 nonce2 now2 s2)))
               (Some P) = None)"
proof -
  have z: "js_or (u_newSize order) (u_size order) = Some S"
    by (rule filled_size [OF assms(8,9)])
  have t: "toFixed (P + priceStep cfg) (pricePrecision cfg) = P + priceStep cfg"
    by (rule toFixed_safe_integer [OF assms(12)])
  have "sent (wsManager (handleOrderUpdate cfg order nonce now s))
           = sent (wsManager s) @ [PlaceOrderMsg (''sell_'' @ nonce) Sell (P + priceStep cfg) (Some S)]
       \<and> messageQueue (wsManager (handleOrderUpdate cfg order nonce now s)) = messageQueue (wsManager s)
       \<and> map_of (sellCurrentOrders (cacheManager (handleOrderUpdate cfg order nonce now s)))
            (Some (P + priceStep cfg))
           = Some (SellInfo \<lparr>s_clientOid = ''sell_'' @ nonce, s_price = Some (P + priceStep cfg),
                             s_size = Some S, s_status = ''pending'', s_timestamp = now\<rparr>)
       \<and> map_of (buyFilledOrders (cacheManager (handleOrderUpdate cfg order nonce now s))) (Some P)
           = Some \<lparr>f_orderId = (if u_orderId order = [] then ''unknown'' else u_orderId order),
                   f_clientOid = u_clientOid order, f_price = Some P, f_size = Some S,
                   f_timestamp = now\<rparr>
       \<and> map_of (buyCurrentOrders (cacheManager (handleOrderUpdate cfg order nonce now s)))
            (u_clientOid order) = None
       \<and> buyOrdersFilled (orderStats (handleOrderUpdate cfg order nonce now s))
           = buyOrdersFilled (orderStats s) + 1"
    unfolding buy_fill_state [OF assms(1-7) z assms(8) t]
    by (simp add: update_conv' delete_conv')
  then show ?thesis
    using sell_fill_clears_record by blast
qed

theorem buy_fill_requotes_witness:
  "privateConnected (wsManager fillExample) \<and> isAuthenticated (wsManager fillExample)
   \<and> socketOpen (wsManager fillExample)
   \<and> startsWith (u_clientOid buyFillEvent) ''buy_'' \<and> u_status buyFillEvent = ''filled''
   \<and> u_price buyFillEvent = Some 10000 \<and> (10000::rat) \<noteq> 0 \<and> (1 / 100 :: rat) \<noteq> 0
   \<and> u_newSize buyFillEvent = None \<and> u_size buyFillEvent = Some (1 / 100)
   \<and> isSafeInteger 10000 \<and> isSafeInteger (priceStep exampleConfig)
   \<and> isSafeInteger (10000 + priceStep exampleConfig)
   \<and> sent (wsManager (handleOrderUpdate exampleConfig buyFillEvent ''2'' 5 fillExample))
           = sent (wsManager fillExample) @ [PlaceOrderMsg (''sell_'' @ ''2'') Sell (10000 + priceStep exampleConfig) (Some (1 / 100))]
       \<and> messageQueue (wsManager (handleOrderUpdate exampleConfig buyFillEvent ''2'' 5 fillExample)) = messageQueue (wsManager fillExample)
       \<and> map_of (sellCurrentOrders (cacheManager (handleOrderUpdate exampleConfig buyFillEvent ''2'' 5 fillExample)))
            (Some (10000 + priceStep exampleConfig))
           = Some (SellInfo \<lparr>s_clientOid = ''sell_'' @ ''2'', s_price = Some (10000 + priceStep exampleConfig),
                             s_size = Some (1 / 100), s_status = ''pending'', s_timestamp = 5\<rparr>)
       \<and> map_of (buyFilledOrders (cacheManager (handleOrderUpdate exampleConfig buyFillEvent ''2'' 5 fillExample))) (Some 10000)
           = Some \<lparr>f_orderId = (if u_orderId buyFillEvent = [] then ''unknown'' else u_orderId buyFillEvent),
                   f_clientOid = u_clientOid buyFillEvent, f_price = Some 10000, f_size = Some (1 / 100),
                   f_timestamp = 5\<rparr>
       \<and> map_of (buyCurrentOrders (cacheManager (handleOrderUpdate exampleConfig buyFillEvent ''2'' 5 fillExample)))
            (u_clientOid buyFillEvent) = None
       \<and> buyOrdersFilled (orderStats (handleOrderUpdate exampleConfig buyFillEvent ''2'' 5 fillExample))
           = buyOrdersFilled (orderStats fillExample) + 1
   \<and> startsWith (u_clientOid partialFillEvent) ''buy_'' \<and> u_status partialFillEvent = ''filled''
   \<and> u_price partialFillEvent = Some 10000 \<and> (1 / 125 :: rat) \<noteq> 0
   \<and> u_newSize partialFillEvent = Some (1 / 125) \<and> u_size partialFillEvent = Some (1 / 100)
   \<and> sent (wsManager (handleOrderUpdate exampleConfig partialFillEvent ''2'' 5 fillExample))
           = sent (wsManager fillExample) @ [PlaceOrderMsg (''sell_'' @ ''2'') Sell (10000 + priceStep exampleConfig) (Some (1 / 125))]
       \<and> map_of (sellCurrentOrders (cacheManager (handleOrderUpdate exampleConfig partialFillEvent ''2'' 5 fillExample)))
            (Some (10000 + priceStep exampleConfig))
           = Some (SellInfo \<lparr>s_clientOid = ''sell_'' @ ''2'', s_price = Some (10000 + priceStep exampleConfig),
                             s_size = Some (1 / 125), s_status = ''pending'', s_timestamp = 5\<rparr>)
   \<and> startsWith (u_clientOid sellFillEvent) ''sell_'' \<and> u_status sellFillEvent = ''filled''
   \<and> u_price sellFillEvent = Some (10000 + priceStep exampleConfig)
   \<and> map_of (buyFilledOrders (cacheManager (handleOrderUpdate exampleConfig sellFillEvent ''3'' 9
                 requotedExample))) (Some 10000) = None"
proof -
  have r: "privateConnected (wsManager fillExample)" "isAuthenticated (wsManager fillExample)"
          "socketOpen (wsManager fillExample)"
    by code_simp+
  have e: "startsWith (u_clientOid buyFillEvent) ''buy_''" "u_status buyFillEvent = ''filled''"
    by code_simp+
  have p: "u_price buyFillEvent = Some 10000" by code_simp
  have pz: "(10000::rat) \<noteq> 0" by simp
  have zz: "(1 / 100 :: rat) \<noteq> 0" by simp
  have n: "u_newSize buyFillEvent = None" "u_size buyFillEvent = Some (1 / 100)"
    by code_simp+
  have z: "u_newSize buyFillEvent = Some (1 / 100)
           \<or> (u_newSize buyFillEvent = None \<or> u_newSize buyFillEvent = Some 0)
              \<and> u_size buyFillEvent = Some (1 / 100)"
    using n by blast
  have si: "isSafeInteger 10000" "isSafeInteger (priceStep exampleConfig)"
           "isSafeInteger (10000 + priceStep exampleConfig)"
    by code_simp+
  have e': "startsWith (u_clientOid partialFillEvent) ''buy_''" "u_status partialFillEvent = ''filled''"
    by code_simp+
  have p': "u_price partialFillEvent = Some 10000" by code_simp
  have zz': "(1 / 125 :: rat) \<noteq> 0" by simp
  have n': "u_newSize partialFillEvent = Some (1 / 125)" "u_size partialFillEvent = Some (1 / 100)"
    by code_simp+
  have z': "u_newSize partialFillEvent = Some (1 / 125)
           \<or> (u_newSize partialFillEvent = None \<or> u_newSize partialFillEvent = Some 0)
              \<and> u_size partialFillEvent = Some (1 / 125)"
    using n' by blast
  have e2: "startsWith (u_clientOid sellFillEvent) ''sell_''" "u_status sellFillEvent = ''filled''"
           "u_price sellFillEvent = Some (10000 + priceStep exampleConfig)"
    by code_simp+
  note main = buy_fill_requotes [OF r e p pz zz z si, of "''2''" 5]
  note main' = buy_fill_requotes [OF r e' p' pz zz' z' si, of "''2''" 5]
  have 1: "sent (wsManager (handleOrderUpdate exampleConfig buyFillEvent ''2'' 5 fillExample))
           = sent (wsManager fillExample) @ [PlaceOrderMsg (''sell_'' @ ''2'') Sell (10000 + priceStep exampleConfig) (Some (1 / 100))]
       \<and> messageQueue (wsManager (handleOrderUpdate exampleConfig buyFillEvent ''2'' 5 fillExample)) = messageQueue (wsManager fillExample)
       \<and> map_of (sellCurrentOrders (cacheManager (handleOrderUpdate exampleConfig buyFillEvent ''2'' 5 fillExample)))
            (Some (10000 + priceStep exampleConfig))
           = Some (SellInfo \<lparr>s_clientOid = ''sell_'' @ ''2'', s_price = Some (10000 + priceStep exampleConfig),
                             s_size = Some (1 / 100), s_status = ''pending'', s_timestamp = 5\<rparr>)
       \<and> map_of (buyFilledOrders (cacheManager (handleOrderUpdate exampleConfig buyFillEvent ''2'' 5 fillExample))) (Some 10000)
           = Some \<lparr>f_orderId = (if u_orderId buyFillEvent = [] then ''unknown'' else u_orderId buyFillEvent),
                   f_clientOid = u_clientOid buyFillEvent, f_price = Some 10000, f_size = Some (1 / 100),
                   f_timestamp = 5\<rparr>
       \<and> map_of (buyCurrentOrders (cacheManager (handleOrderUpdate exampleConfig buyFillEvent ''2'' 5 fillExample)))
            (u_clientOid buyFillEvent) = None
       \<and> buyOrdersFilled (orderStats (handleOrderUpdate exampleConfig buyFillEvent ''2'' 5 fillExample))
           = buyOrdersFilled (orderStats fillExample) + 1"
    using main by blast
  have 2: "sent (wsManager (handleOrderUpdate exampleConfig partialFillEvent ''2'' 5 fillExample))
           = sent (wsManager fillExample) @ [PlaceOrderMsg (''sell_'' @ ''2'') Sell (10000 + priceStep exampleConfig) (Some (1 / 125))]
       \<and> map_of (sellCurrentOrders (cacheManager (handleOrderUpdate exampleConfig partialFillEvent ''2'' 5 fillExample)))
            (Some (10000 + priceStep exampleConfig))
           = Some (SellInfo \<lparr>s_clientOid = ''sell_'' @ ''2'', s_price = Some (10000 + priceStep exampleConfig),
                             s_size = Some (1 / 125), s_status = ''pending'', s_timestamp = 5\<rparr>)"
    using main' by blast
  have 3: "map_of (buyFilledOrders (cacheManager (handleOrderUpdate exampleConfig sellFillEvent ''3'' 9
                 requotedExample))) (Some 10000) = None"
    using main e2 by blast
  show ?thesis
    using r e p pz zz n si e' p' zz' n' e2 1 2 3 by blast
qed

text \<open>The example, evaluated: one sell at 10050 for 0.01, then the record at 10000 is gone.\<close>

lemma buy_fill_example:
  "sent (wsManager requotedExample)
     = sent (wsManager fillExample) @ [PlaceOrderMsg ''sell_2'' Sell 10050 (Some (1 / 100))]
   \<and> sent (wsManager (handleOrderUpdate exampleConfig partialFillEvent ''2'' 5 fillExample))
     = sent (wsManager fillExample) @ [PlaceOrderMsg ''sell_2'' Sell 10050 (Some (1 / 125))]
   \<and> map fst (buyFilledOrders (cacheManager requotedExample)) = [Some 10000]
   \<and> map fst (sellCurrentOrders (cacheManager requotedExample)) = [Some 10050]
   \<and> buyFilledOrders (cacheManager (handleOrderUpdate exampleConfig sellFillEvent ''3'' 9 requotedExample)) = []
   \<and> sellCurrentOrders (cacheManager (handleOrderUpdate exampleConfig sellFillEvent ''3'' 9 requotedExample)) = []"
  by code_simp

text \<open>
  Claim C8. A fill event without price or size should change nothing. For a buy fill the
  tests for a missing price or size are in \<open>handleBuyOrderFilled\<close>, which runs after
  \<open>handleOrderUpdate\<close> has already removed the buy order and written the
  FilledBuyRecord: without a size the record is written under the price, without a price
  under NaN; no counter changes and no sell is sent. For a sell fill nothing is tested:
  without a size the record and the sell entry are removed and the sell fill is counted.
\<close>

theorem malformed_fill_mutates_store:
  "map fst (buyCurrentOrders (cacheManager fillExample)) = [''buy_1'']
   \<and> buyFilledOrders (cacheManager fillExample) = []
   \<and> buyCurrentOrders (cacheManager
         (handleOrderUpdate exampleConfig (buyFillEvent\<lparr>u_size := None\<rparr>) ''2'' 5 fillExample)) = []
   \<and> map fst (buyFilledOrders (cacheManager
         (handleOrderUpdate exampleConfig (buyFillEvent\<lparr>u_size := None\<rparr>) ''2'' 5 fillExample)))
       = [Some 10000]
   \<and> orderStats (handleOrderUpdate exampleConfig (buyFillEvent\<lparr>u_size := None\<rparr>) ''2'' 5 fillExample)
       = orderStats fillExample
   \<and> wsManager (handleOrderUpdate exampleConfig (buyFillEvent\<lparr>u_size := None\<rparr>) ''2'' 5 fillExample)
       = wsManager fillExample
   \<and> buyCurrentOrders (cacheManager
         (handleOrderUpdate exampleConfig (buyFillEvent\<lparr>u_price := None\<rparr>) ''2'' 5 fillExample)) = []
   \<and> map fst (buyFilledOrders (cacheManager
         (handleOrderUpdate exampleConfig (buyFillEvent\<lparr>u_price := None\<rparr>) ''2'' 5 fillExample)))
       = [None]
   \<and> map fst (buyFilledOrders (cacheManager requotedExample)) = [Some 10000]
   \<and> map fst (sellCurrentOrders (cacheManager requotedExample)) = [Some 10050]
   \<and> sellOrdersFilled (orderStats requotedExample) = 0
   \<and> buyFilledOrders (cacheManager
         (handleOrderUpdate exampleConfig (sellFillEvent\<lparr>u_size := None\<rparr>) ''3'' 9 requotedExample)) = []
   \<and> sellCurrentOrders (cacheManager
         (handleOrderUpdate exampleConfig (sellFillEvent\<lparr>u_size := None\<rparr>) ''3'' 9 requotedExample)) = []
   \<and> sellOrdersFilled (orderStats
         (handleOrderUpdate exampleConfig (sellFillEvent\<lparr>u_size := None\<rparr>) ''3'' 9 requotedExample)) = 1"
  by code_simp

section \<open>Recovery from an insufficient-balance rejection\<close>

lemma eligible_sorted_filter:
  "filter (\<lambda>(clientOid, order). b_price order < F) (getActiveBuyOrdersSortedByDistance F c)
     = sort_key (\<lambda>(clientOid, order). - \<bar>b_price order - F\<bar>)
         (filter (\<lambda>(clientOid, order). b_status order = ''live'' \<and> b_price order < F)
                 (buyCurrentOrders c))"
proof -
  have "filter (\<lambda>(clientOid, order). b_price order < F)
          (filter (\<lambda>(clientOid, order). b_status order = ''live'') (buyCurrentOrders c))
        = filter (\<lambda>(clientOid, order). b_status order = ''live'' \<and> b_price order < F) (buyCurrentOrders c)"
    by (auto intro: filter_cong)
  then show ?thesis
    by (simp add: getActiveBuyOrdersSortedByDistance_def filter_sort)
qed

lemma sort_key_Nil_iff: "sort_key f xs = [] \<longleftrightarrow> xs = []"
proof
  assume "sort_key f xs = []"
  then have "length (sort_key f xs) = 0" by simp
  then show "xs = []" by (simp only: length_sort length_0_conv)
next
  assume "xs = []"
  then show "sort_key f xs = []" by simp
qed

lemma sort_key_head_least:
  assumes "sort_key f xs = x # rest" "y \<in> set xs"
  shows "f x \<le> f y"
proof -
  have "sorted (map f (x # rest))" using assms(1) sorted_sort_key [of f xs] by simp
  moreover have "y \<in> set (x # rest)" using assms by (metis set_sort)
  ultimately show ?thesis by auto
qed

lemma eligible_head_lowest:
  assumes "filter (\<lambda>(clientOid, order). b_price order < F) (getActiveBuyOrdersSortedByDistance F c)
             = x # rest"
  shows "x \<in> set (filter (\<lambda>(clientOid, order). b_status order = ''live'' \<and> b_price order < F)
                     (buyCurrentOrders c))
         \<and> (\<forall>y \<in> set (filter (\<lambda>(clientOid, order). b_status order = ''live'' \<and> b_price order < F)
                           (buyCurrentOrders c)).
               b_price (snd x) \<le> b_price (snd y))"
proof -
  let ?E = "filter (\<lambda>(clientOid, order). b_status order = ''live'' \<and> b_price order < F) (buyCurrentOrders c)"
  let ?k = "\<lambda>(clientOid, order). - \<bar>b_price order - F\<bar>"
  have s: "sort_key ?k ?E = x # rest"
    using assms by (simp add: eligible_sorted_filter)
  have "x \<in> set (sort_key ?k ?E)"
    unfolding s by simp
  then have xin: "x \<in> set ?E"
    by (simp only: set_sort)
  have "b_price (snd x) \<le> b_price (snd y)" if "y \<in> set ?E" for y
  proof -
    have "?k x \<le> ?k y" by (rule sort_key_head_least [OF s that])
    moreover have "b_price (snd x) < F" using xin by auto
    moreover have "b_price (snd y) < F" using that by auto
    ultimately show ?thesis by (cases x, cases y) auto
  qed
  with xin show ?thesis by blast
qed

lemma cancelOrder_ready:
  assumes "privateConnected (wsManager s)" "isAuthenticated (wsManager s)"
  shows "cancelOrder clientOid s =
           (True, s\<lparr>wsManager := (wsManager s)\<lparr>messageQueue := messageQueue (wsManager s)
                                                      @ [CancelOrderMsg clientOid]\<rparr>,
                    orderStats := (orderStats s)\<lparr>ordersCancelled := ordersCancelled (orderStats s) + 1\<rparr>\<rparr>)"
  using assms by (simp add: cancelOrder_def wsCancelOrder_def)

lemma handleInsufficientBalance_none:
  assumes "\<not> isHandlingInsufficientBalance s"
      and "filter (\<lambda>(clientOid, order). b_status order = ''live'' \<and> b_price order < F)
             (buyCurrentOrders (cacheManager s)) = []"
  shows "handleInsufficientBalance F s = s"
proof -
  have "filter (\<lambda>(clientOid, order). b_price order < F)
          (getActiveBuyOrdersSortedByDistance F (cacheManager s)) = []"
    using assms(2) by (simp add: eligible_sorted_filter)
  with assms(1) show ?thesis
    by (simp add: handleInsufficientBalance_def Let_def)
qed

lemma handleInsufficientBalance_some:
  assumes "\<not> isHandlingInsufficientBalance s"
      and "privateConnected (wsManager s)" "isAuthenticated (wsManager s)"
      and "filter (\<lambda>(clientOid, order). b_price order < F)
             (getActiveBuyOrdersSortedByDistance F (cacheManager s)) = x # rest"
  shows "handleInsufficientBalance F s =
           s\<lparr>isHandlingInsufficientBalance := True,
             wsManager := (wsManager s)\<lparr>messageQueue := messageQueue (wsManager s)
                                                       @ [CancelOrderMsg (fst x)]\<rparr>,
             orderStats := (orderStats s)\<lparr>ordersCancelled := ordersCancelled (orderStats s) + 1\<rparr>,
             cancelWait := Some \<lparr>awaitedOid = fst x, retryPrice = F, timeoutMs = 2000\<rparr>\<rparr>"
proof -
  have ne: "getActiveBuyOrdersSortedByDistance F (cacheManager s) \<noteq> []"
    using assms(4) by auto
  have c: "cancelOrder (fst x) (s\<lparr>isHandlingInsufficientBalance := True\<rparr>) =
             (True, s\<lparr>isHandlingInsufficientBalance := True,
                wsManager := (wsManager s)\<lparr>messageQueue := messageQueue (wsManager s)
                                                       @ [CancelOrderMsg (fst x)]\<rparr>,
                orderStats := (orderStats s)\<lparr>ordersCancelled := ordersCancelled (orderStats s) + 1\<rparr>\<rparr>)"
    using assms(2,3) by (simp add: cancelOrder_ready)
  show ?thesis
    using assms(1) ne
    by (simp add: handleInsufficientBalance_def Let_def assms(4) c)
qed

lemma handleOrderUpdate_buy_cancelled:
  assumes "startsWith (u_clientOid order) ''buy_''"
      and "u_status order = ''cancelled'' \<or> u_status order = ''canceled''"
  shows "handleOrderUpdate cfg order nonce now s =
           onOrderCancelled cfg (u_clientOid order) nonce now
             (s\<lparr>cacheManager := snd (removeBuyOrder (u_clientOid order) (cacheManager s))\<rparr>)"
proof -
  have ne: "u_clientOid order \<noteq> []" by (rule startsWith_nonempty [OF assms(1)])
  have st: "u_status order \<noteq> ''live''" "u_status order \<noteq> ''filled''"
    using assms(2) by auto
  show ?thesis
    unfolding handleOrderUpdate_def Let_def
    using ne st assms by simp
qed

lemma confirmation_retries:
  assumes "cancelWait s1 = Some r" "u_clientOid order = awaitedOid r"
      and "startsWith (u_clientOid order) ''buy_''"
      and "u_status order = ''cancelled'' \<or> u_status order = ''canceled''"
  shows "handleOrderUpdate cfg order nonce now s1 =
           (snd (placeBuyOrder cfg (retryPrice r) nonce now
                   (s1\<lparr>cacheManager := snd (removeBuyOrder (awaitedOid r) (cacheManager s1)),
                       cancelWait := None\<rparr>)))
             \<lparr>isHandlingInsufficientBalance := False\<rparr>"
  using assms(1,2)
  by (simp add: handleOrderUpdate_buy_cancelled [OF assms(3,4)] onOrderCancelled_def)

lemma timeout_abandons:
  assumes "cancelWait s1 = Some r"
  shows "cancelTimeout s1 = s1\<lparr>cancelWait := None, isHandlingInsufficientBalance := False\<rparr>"
  using assms by (simp add: cancelTimeout_def)

text \<open>
  The steps of the recovery, each alone. An insufficient-balance rejection at price \<open>F\<close>
  arrives while no recovery is in flight and the trading connection is ready. If no live
  buy is priced strictly below \<open>F\<close>, nothing changes. Otherwise the manager sets the
  flag and queues exactly one cancel, for a live buy priced below \<open>F\<close> that is lowest,
  hence farthest from \<open>F\<close>, among them, and waits for its cancellation with a timer of
  2000 ms. When the awaited identifier is reported cancelled, the order leaves the store,
  \<open>placeBuyOrder\<close> is called at \<open>F\<close> and the flag is cleared. When the timer fires
  first, the wait ends and the flag is cleared, with no call of \<open>placeBuyOrder\<close>.
\<close>

lemma recovery_steps:
  assumes "\<not> isHandlingInsufficientBalance s"
      and "privateConnected (wsManager s)" "isAuthenticated (wsManager s)"
  shows
   "((filter (\<lambda>(clientOid, order). b_status order = ''live'' \<and> b_price order < F)
               (buyCurrentOrders (cacheManager s))) = [] \<longrightarrow> handleInsufficientBalance F s = s)
    \<and> ((filter (\<lambda>(clientOid, order). b_status order = ''live'' \<and> b_price order < F)
               (buyCurrentOrders (cacheManager s))) \<noteq> [] \<longrightarrow> (\<exists>clientOid order.
            (clientOid, order) \<in> set (filter (\<lambda>(clientOid, order). b_status order = ''live'' \<and> b_price order < F)
               (buyCurrentOrders (cacheManager s)))
            \<and> (\<forall>y \<in> set (filter (\<lambda>(clientOid, order). b_status order = ''live'' \<and> b_price order < F)
               (buyCurrentOrders (cacheManager s))).
                   b_price order \<le> b_price (snd y)
                   \<and> \<bar>b_price (snd y) - F\<bar> \<le> \<bar>b_price order - F\<bar>)
            \<and> handleInsufficientBalance F s =
                s\<lparr>isHandlingInsufficientBalance := True,
                  wsManager := (wsManager s)\<lparr>messageQueue := messageQueue (wsManager s)
                                                            @ [CancelOrderMsg clientOid]\<rparr>,
                  orderStats := (orderStats s)\<lparr>ordersCancelled := ordersCancelled (orderStats s) + 1\<rparr>,
                  cancelWait := Some \<lparr>awaitedOid = clientOid, retryPrice = F, timeoutMs = 2000\<rparr>\<rparr>))
    \<and> (\<forall>s1 r order nonce now.
          cancelWait s1 = Some r \<and> u_clientOid order = awaitedOid r
          \<and> startsWith (u_clientOid order) ''buy_''
          \<and> (u_status order = ''cancelled'' \<or> u_status order = ''canceled'') \<longrightarrow>
          handleOrderUpdate cfg order nonce now s1 =
             (snd (placeBuyOrder cfg (retryPrice r) nonce now
                     (s1\<lparr>cacheManager := snd (removeBuyOrder (awaitedOid r) (cacheManager s1)),
                         cancelWait := None\<rparr>)))
               \<lparr>isHandlingInsufficientBalance := False\<rparr>)
    \<and> (\<forall>s1 r. cancelWait s1 = Some r \<longrightarrow>
          cancelTimeout s1 = s1\<lparr>cancelWait := None, isHandlingInsufficientBalance := False\<rparr>)"
proof (intro conjI impI allI)
  assume "(filter (\<lambda>(clientOid, order). b_status order = ''live'' \<and> b_price order < F)
               (buyCurrentOrders (cacheManager s))) = []"
  with assms(1) show "handleInsufficientBalance F s = s"
    by (rule handleInsufficientBalance_none)
next
  assume ne: "(filter (\<lambda>(clientOid, order). b_status order = ''live'' \<and> b_price order < F)
               (buyCurrentOrders (cacheManager s))) \<noteq> []"
  have "filter (\<lambda>(clientOid, order). b_price order < F)
          (getActiveBuyOrdersSortedByDistance F (cacheManager s)) \<noteq> []"
    unfolding eligible_sorted_filter using ne sort_key_Nil_iff by blast
  then obtain x rest where xs:
    "filter (\<lambda>(clientOid, order). b_price order < F)
       (getActiveBuyOrdersSortedByDistance F (cacheManager s)) = x # rest"
    using list.exhaust by blast
  note low = eligible_head_lowest [OF xs]
  have xin: "(fst x, snd x) \<in> set (filter (\<lambda>(clientOid, order). b_status order = ''live'' \<and> b_price order < F)
               (buyCurrentOrders (cacheManager s)))"
    using low by simp
  have below: "b_price (snd x) < F"
    using xin by auto
  have far: "\<forall>y \<in> set (filter (\<lambda>(clientOid, order). b_status order = ''live'' \<and> b_price order < F)
               (buyCurrentOrders (cacheManager s))).
               b_price (snd x) \<le> b_price (snd y)
               \<and> \<bar>b_price (snd y) - F\<bar> \<le> \<bar>b_price (snd x) - F\<bar>"
  proof
    fix y assume y: "y \<in> set (filter (\<lambda>(clientOid, order). b_status order = ''live'' \<and> b_price order < F)
               (buyCurrentOrders (cacheManager s)))"
    then have "b_price (snd y) < F" by auto
    moreover have "b_price (snd x) \<le> b_price (snd y)" using low y by blast
    ultimately show "b_price (snd x) \<le> b_price (snd y)
               \<and> \<bar>b_price (snd y) - F\<bar> \<le> \<bar>b_price (snd x) - F\<bar>"
      using below by simp
  qed
  note st = handleInsufficientBalance_some [OF assms xs]
  show "(\<exists>clientOid order.
            (clientOid, order) \<in> set (filter (\<lambda>(clientOid, order). b_status order = ''live'' \<and> b_price order < F)
               (buyCurrentOrders (cacheManager s)))
            \<and> (\<forall>y \<in> set (filter (\<lambda>(clientOid, order). b_status order = ''live'' \<and> b_price order < F)
               (buyCurrentOrders (cacheManager s))).
                   b_price order \<le> b_price (snd y)
                   \<and> \<bar>b_price (snd y) - F\<bar> \<le> \<bar>b_price order - F\<bar>)
            \<and> handleInsufficientBalance F s =
                s\<lparr>isHandlingInsufficientBalance := True,
                  wsManager := (wsManager s)\<lparr>messageQueue := messageQueue (wsManager s)
                                                            @ [CancelOrderMsg clientOid]\<rparr>,
                  orderStats := (orderStats s)\<lparr>ordersCancelled := ordersCancelled (orderStats s) + 1\<rparr>,
                  cancelWait := Some \<lparr>awaitedOid = clientOid, retryPrice = F, timeoutMs = 2000\<rparr>\<rparr>)"
    using xin far st by blast
next
  fix s1 :: bot and r :: recovery and order :: order_update and nonce :: string and now :: int
  assume "cancelWait s1 = Some r \<and> u_clientOid order = awaitedOid r
          \<and> startsWith (u_clientOid order) ''buy_''
          \<and> (u_status order = ''cancelled'' \<or> u_status order = ''canceled'')"
  then show "handleOrderUpdate cfg order nonce now s1 =
             (snd (placeBuyOrder cfg (retryPrice r) nonce now
                     (s1\<lparr>cacheManager := snd (removeBuyOrder (awaitedOid r) (cacheManager s1)),
                         cancelWait := None\<rparr>)))
               \<lparr>isHandlingInsufficientBalance := False\<rparr>"
    using confirmation_retries by blast
next
  fix s1 :: bot and r :: recovery
  assume "cancelWait s1 = Some r"
  then show "cancelTimeout s1 = s1\<lparr>cancelWait := None, isHandlingInsufficientBalance := False\<rparr>"
    by (rule timeout_abandons)
qed

text \<open>
  The steps on a store that holds the live buys at 9700, 9750 and 9900 and no record at
  9800: the cancel goes to the buy at 9700; after its confirmation the buys are at 9750,
  9900 and 9800; after a timeout instead, only the queued cancel and its count remain.
\<close>

lemma recovery_example:
  "cancelWait (handleInsufficientBalance 9800 recoveryExample)
     = Some \<lparr>awaitedOid = ''buy_1'', retryPrice = 9800, timeoutMs = 2000\<rparr>
   \<and> messageQueue (wsManager (handleInsufficientBalance 9800 recoveryExample)) = [CancelOrderMsg ''buy_1'']
   \<and> isHandlingInsufficientBalance (handleInsufficientBalance 9800 recoveryExample)
   \<and> buyPrices (cacheManager (handleOrderUpdate exampleConfig (cancelledEvent ''buy_1'' 9700) ''4'' 9
        (handleInsufficientBalance 9800 recoveryExample))) = [9750, 9900, 9800]
   \<and> \<not> isHandlingInsufficientBalance (handleOrderUpdate exampleConfig (cancelledEvent ''buy_1'' 9700) ''4'' 9
        (handleInsufficientBalance 9800 recoveryExample))
   \<and> cancelTimeout (handleInsufficientBalance 9800 recoveryExample)
       = recoveryExample\<lparr>wsManager := (wsManager recoveryExample)\<lparr>messageQueue := [CancelOrderMsg ''buy_1'']\<rparr>,
           orderStats := (orderStats recoveryExample)\<lparr>ordersCancelled := 1\<rparr>\<rparr>"
  by code_simp

text \<open>
  The call of \<open>placeBuyOrder\<close> on confirmation places nothing while another buy order
  is recorded at the retry price: the guard \<open>canPlaceOrder\<close> refuses it.
\<close>

lemma confirmation_refused:
  assumes "cancelWait s1 = Some r" "u_clientOid order = awaitedOid r"
      and "startsWith (u_clientOid order) ''buy_''"
      and "u_status order = ''cancelled'' \<or> u_status order = ''canceled''"
      and "(clientOid, rejected) \<in> set (buyCurrentOrders (cacheManager s1))"
      and "clientOid \<noteq> awaitedOid r" "b_price rejected = retryPrice r"
  shows "handleOrderUpdate cfg order nonce now s1 =
           s1\<lparr>cacheManager := snd (removeBuyOrder (awaitedOid r) (cacheManager s1)),
              cancelWait := None, isHandlingInsufficientBalance := False\<rparr>"
proof -
  let ?s2 = "s1\<lparr>cacheManager := snd (removeBuyOrder (awaitedOid r) (cacheManager s1)),
                cancelWait := None\<rparr>"
  have "(clientOid, rejected) \<in> set (buyCurrentOrders (cacheManager ?s2))"
    using assms(5,6) by (auto simp: removeBuyOrder_def AList.delete_eq split: option.split)
  then have "retryPrice r \<in> set (map (\<lambda>(clientOid, order). b_price order)
                                   (buyCurrentOrders (cacheManager ?s2)))"
    using assms(7) by force
  then have "\<not> canPlaceOrder (retryPrice r) (priceStep cfg) (cacheManager ?s2)"
    by (simp add: canPlaceOrder_def)
  then have "placeBuyOrder cfg (retryPrice r) nonce now ?s2 = (None, ?s2)"
    by (simp add: placeBuyOrder_def)
  then show ?thesis
    by (simp add: confirmation_retries [OF assms(1-4)])
qed

text \<open>
  Claim C4, on the recovery example of the specification from its beginning. The bot
  places the buy at 9800, which records it as pending under \<open>buy_4\<close>; the venue rejects
  it for insufficient balance, which removes nothing from the store. The manager selects
  \<open>buy_1\<close> at 9700, queues its cancel and waits, with the flag set. When \<open>buy_1\<close> is
  reported cancelled, the retry at 9800 writes nothing to the socket and counts no
  placement: the record of the rejected order still stands at 9800 and the guard of
  \<open>placeBuyOrder\<close> refuses the price. The store keeps the buys at 9750 and 9900 and the
  pending record of the order the venue refused. From the state without that record the
  same confirmation does send the buy at 9800.
\<close>

theorem recovery_retry_refused:
  "sent (wsManager rejectedExample)
     = sent (wsManager recoveryExample) @ [PlaceOrderMsg ''buy_4'' Buy 9800 (Some (2551 / 500000))]
   \<and> map (\<lambda>(clientOid, order). (clientOid, b_price order, b_status order))
         (buyCurrentOrders (cacheManager rejectedExample))
     = [(''buy_1'', 9700, ''live''), (''buy_2'', 9750, ''live''), (''buy_3'', 9900, ''live''),
        (''buy_4'', 9800, ''pending'')]
   \<and> isHandlingInsufficientBalance rejectedExample
   \<and> cancelWait rejectedExample = Some \<lparr>awaitedOid = ''buy_1'', retryPrice = 9800, timeoutMs = 2000\<rparr>
   \<and> messageQueue (wsManager rejectedExample) = [CancelOrderMsg ''buy_1'']
   \<and> sent (wsManager confirmedExample) = sent (wsManager rejectedExample)
   \<and> messageQueue (wsManager confirmedExample) = messageQueue (wsManager rejectedExample)
   \<and> ordersPlaced (orderStats confirmedExample) = ordersPlaced (orderStats rejectedExample)
   \<and> map (\<lambda>(clientOid, order). (clientOid, b_price order, b_status order))
         (buyCurrentOrders (cacheManager confirmedExample))
     = [(''buy_2'', 9750, ''live''), (''buy_3'', 9900, ''live''), (''buy_4'', 9800, ''pending'')]
   \<and> cancelWait confirmedExample = None
   \<and> \<not> isHandlingInsufficientBalance confirmedExample
   \<and> sent (wsManager (handleOrderUpdate exampleConfig (cancelledEvent ''buy_1'' 9700) ''5'' 9
              (handleInsufficientBalance 9800 recoveryExample)))
     = sent (wsManager recoveryExample) @ [PlaceOrderMsg ''buy_5'' Buy 9800 (Some (2551 / 500000))]"
  by code_simp

section \<open>Prices of the active orders in every reachable state\<close>

lemma canPlaceOrder_fresh_price:
  "canPlaceOrder price stp c \<Longrightarrow> price \<notin> set (buyPrices c)"
  by (simp add: canPlaceOrder_def buyPrices_def split: if_splits)

lemma distinct_prices_update:
  fixes f :: "'v \<Rightarrow> rat"
  assumes "distinct (map (\<lambda>(k, v). f v) m)" "f v \<notin> set (map (\<lambda>(k, v). f v) m)"
  shows "distinct (map (\<lambda>(k, v). f v) (AList.update k v m))
         \<and> set (map (\<lambda>(k, v). f v) (AList.update k v m)) \<subseteq> insert (f v) (set (map (\<lambda>(k, v). f v) m))"
  using assms
proof (induction m)
  case Nil
  then show ?case by simp
next
  case (Cons x m)
  obtain k' v' where x: "x = (k', v')" by (cases x)
  show ?case
  proof (cases "k' = k")
    case True
    with Cons.prems x show ?thesis by auto
  next
    case False
    let ?g = "\<lambda>(k, v). f v"
    have d: "distinct (map ?g m)" and n: "f v \<notin> set (map ?g m)"
      and n': "f v' \<notin> set (map ?g m)" and ne: "f v' \<noteq> f v"
      using Cons.prems x by auto
    have ih: "distinct (map ?g (AList.update k v m))"
             "set (map ?g (AList.update k v m)) \<subseteq> insert (f v) (set (map ?g m))"
      using Cons.IH [OF d n] by simp_all
    have "f v' \<notin> set (map ?g (AList.update k v m))"
      using ih(2) n' ne by blast
    with ih have "distinct (map ?g ((k', v') # AList.update k v m))
                  \<and> set (map ?g ((k', v') # AList.update k v m))
                      \<subseteq> insert (f v) (set (map ?g ((k', v') # m)))"
      by auto
    with False x show ?thesis by simp
  qed
qed

lemma addBuyOrder_distinct:
  assumes "distinct (buyPrices c)" "price \<notin> set (buyPrices c)"
  shows "distinct (buyPrices (addBuyOrder clientOid price sz now c))"
  using distinct_prices_update [of b_price "buyCurrentOrders c"
          "\<lparr>b_price = price, b_size = sz, b_status = ''pending'', b_timestamp = now\<rparr>" clientOid] assms
  by (simp add: buyPrices_def addBuyOrder_def)

lemma distinct_prices_filter:
  "distinct (map (\<lambda>(k, v). f v) m) \<Longrightarrow> distinct (map (\<lambda>(k, v). f v) (filter P m))"
  by (rule distinct_map_filter)

lemma removeBuyOrder_buys:
  "buyCurrentOrders (snd (removeBuyOrder clientOid c)) = AList.delete clientOid (buyCurrentOrders c)"
proof (cases "map_of (buyCurrentOrders c) clientOid")
  case None
  then have "clientOid \<notin> fst ` set (buyCurrentOrders c)" by (simp add: map_of_eq_None_iff)
  then have "AList.delete clientOid (buyCurrentOrders c) = buyCurrentOrders c" by (rule delete_id)
  with None show ?thesis by (simp add: removeBuyOrder_def)
next
  case (Some a)
  then show ?thesis by (simp add: removeBuyOrder_def)
qed

lemma removeBuyOrder_distinct:
  "distinct (buyPrices c) \<Longrightarrow> distinct (buyPrices (snd (removeBuyOrder clientOid c)))"
  unfolding buyPrices_def removeBuyOrder_buys delete_filter by (rule distinct_map_filter)

lemma prices_update_same:
  assumes "map_of m k = Some v0" "f v = f v0"
  shows "map (\<lambda>(k, v). f v) (AList.update k v m) = map (\<lambda>(k, v). f v) m"
  using assms
proof (induction m)
  case Nil
  then show ?case by simp
next
  case (Cons x m)
  then show ?case by (cases x) (auto split: if_splits)
qed

lemma updateOrderStatus_prices:
  "buyPrices (snd (updateOrderStatus clientOid newStatus sd now c)) = buyPrices c"
proof (cases sd)
  case Buy
  show ?thesis
  proof (cases "map_of (buyCurrentOrders c) clientOid")
    case None
    with Buy show ?thesis by (simp add: updateOrderStatus_def)
  next
    case (Some order)
    have "map (\<lambda>(k, v). b_price v) (AList.update clientOid (order\<lparr>b_status := newStatus\<rparr>) (buyCurrentOrders c))
            = map (\<lambda>(k, v). b_price v) (buyCurrentOrders c)"
      by (rule prices_update_same [OF Some]) simp
    with Buy Some show ?thesis by (simp add: updateOrderStatus_def buyPrices_def)
  qed
next
  case Sell
  then show ?thesis
    by (simp add: updateOrderStatus_def buyPrices_def split: option.split prod.split sell_entry.split)
qed

lemma cleanPendingOrders_buys:
  "buyCurrentOrders (snd (cleanPendingOrders maxPendingTimeMs now c))
     = filter (\<lambda>(k, v). k \<notin> fst ` {e \<in> set (buyCurrentOrders c). buyExpired maxPendingTimeMs now (snd e)})
              (buyCurrentOrders c)"
  by (simp add: cleanPendingOrders_def fold_delete_expired split: prod.split)

lemma cleanPendingOrders_distinct:
  "distinct (buyPrices c) \<Longrightarrow> distinct (buyPrices (snd (cleanPendingOrders maxPendingTimeMs now c)))"
  unfolding buyPrices_def cleanPendingOrders_buys by (rule distinct_map_filter)


lemma placeBuyOrder_distinct:
  assumes "distinct (buyPrices (cacheManager s))"
  shows "distinct (buyPrices (cacheManager (snd (placeBuyOrder cfg price nonce now s))))"
proof (cases "canPlaceOrder price (priceStep cfg) (cacheManager s)")
  case False
  with assms show ?thesis by (simp add: placeBuyOrder_def)
next
  case True
  have "distinct (buyPrices (addBuyOrder (''buy_'' @ nonce) price (calculateOrderSize cfg price) now
                               (cacheManager s)))"
    by (rule addBuyOrder_distinct [OF assms canPlaceOrder_fresh_price [OF True]])
  with True show ?thesis
    by (simp add: placeBuyOrder_def Let_def split: prod.split)
qed

lemma placeBulk_fold_distinct:
  assumes "distinct (buyPrices (cacheManager s))"
  shows "distinct (buyPrices (cacheManager (snd (snd
           (fold (\<lambda>price (orders, orderCount, s').
                    if \<not> canPlaceOrder price (priceStep cfg) (cacheManager s')
                    then (orders, orderCount, s')
                    else
                      let orderSize = calculateOrderSize cfg price;
                          clientOid = ''buy_'' @ mkNonce orderCount
                      in (orders @ [(clientOid, Buy, price, orderSize)],
                          orderCount + 1,
                          s'\<lparr>cacheManager := addBuyOrder clientOid price orderSize now (cacheManager s'),
                             orderStats := (orderStats s')\<lparr>ordersPlaced := ordersPlaced (orderStats s') + 1\<rparr>\<rparr>))
                 pricesData (orders0, n0, s))))))"
  using assms
proof (induction pricesData arbitrary: orders0 n0 s)
  case Nil
  then show ?case by simp
next
  case (Cons price pricesData)
  show ?case
  proof (cases "canPlaceOrder price (priceStep cfg) (cacheManager s)")
    case False
    with Cons show ?thesis by simp
  next
    case True
    have "distinct (buyPrices (addBuyOrder (''buy_'' @ mkNonce n0) price (calculateOrderSize cfg price) now
                                 (cacheManager s)))"
      by (rule addBuyOrder_distinct [OF Cons.prems canPlaceOrder_fresh_price [OF True]])
    then have "distinct (buyPrices (cacheManager
                 (s\<lparr>cacheManager := addBuyOrder (''buy_'' @ mkNonce n0) price (calculateOrderSize cfg price) now
                                         (cacheManager s),
                    orderStats := (orderStats s)\<lparr>ordersPlaced := ordersPlaced (orderStats s) + 1\<rparr>\<rparr>)))"
      by simp
    from Cons.IH [OF this] True show ?thesis by (simp add: Let_def)
  qed
qed

lemma placeBulkBuyOrders_distinct:
  assumes "distinct (buyPrices (cacheManager s))"
  shows "distinct (buyPrices (cacheManager (snd (placeBulkBuyOrders cfg pricesData mkNonce now s))))"
proof -
  let ?r = "fold (\<lambda>price (orders, orderCount, s').
                    if \<not> canPlaceOrder price (priceStep cfg) (cacheManager s')
                    then (orders, orderCount, s')
                    else
                      let orderSize = calculateOrderSize cfg price;
                          clientOid = ''buy_'' @ mkNonce orderCount
                      in (orders @ [(clientOid, Buy, price, orderSize)],
                          orderCount + 1,
                          s'\<lparr>cacheManager := addBuyOrder clientOid price orderSize now (cacheManager s'),
                             orderStats := (orderStats s')\<lparr>ordersPlaced := ordersPlaced (orderStats s') + 1\<rparr>\<rparr>))
                 pricesData ([], 0, s)"
  obtain orders n s1 where r: "?r = (orders, n, s1)"
    by (cases ?r) auto
  have d: "distinct (buyPrices (cacheManager s1))"
    using placeBulk_fold_distinct [OF assms, of cfg mkNonce now pricesData "[]" 0] r by simp
  show ?thesis
    unfolding placeBulkBuyOrders_def r using d
    by (simp add: Let_def split: prod.split)
qed

lemma placeSellOrder_buys:
  "buyCurrentOrders (cacheManager (snd (placeSellOrder cfg price sz nonce now s)))
     = buyCurrentOrders (cacheManager s)"
  by (simp add: placeSellOrder_def Let_def addSellOrder_def split: prod.split)

lemma handleBuyOrderFilled_buys:
  "buyCurrentOrders (cacheManager (handleBuyOrderFilled cfg price clientOid sz nonce now s))
     = buyCurrentOrders (cacheManager s)"
  by (simp add: handleBuyOrderFilled_def Let_def placeSellOrder_buys split: option.split)

lemma removeSellOrder_buys:
  "buyCurrentOrders (snd (removeSellOrder price c)) = buyCurrentOrders c"
  by (simp add: removeSellOrder_def split: option.split)

lemma removeFilledBuyOrder_buys:
  "buyCurrentOrders (snd (removeFilledBuyOrder price c)) = buyCurrentOrders c"
  by (simp add: removeFilledBuyOrder_def split: option.split)

lemma onOrderCancelled_distinct:
  assumes "distinct (buyPrices (cacheManager s))"
  shows "distinct (buyPrices (cacheManager (onOrderCancelled cfg cancelledOid nonce now s)))"
proof (cases "cancelWait s")
  case None
  with assms show ?thesis by (simp add: onOrderCancelled_def)
next
  case (Some r)
  have "distinct (buyPrices (cacheManager (s\<lparr>cancelWait := None\<rparr>)))" using assms by simp
  from placeBuyOrder_distinct [OF this, of cfg "retryPrice r" nonce now] Some assms
  show ?thesis by (simp add: onOrderCancelled_def)
qed

lemma handleOrderUpdate_distinct:
  assumes "distinct (buyPrices (cacheManager s))"
  shows "distinct (buyPrices (cacheManager (handleOrderUpdate cfg order nonce now s)))"
proof -
  have live: "distinct (buyPrices (cacheManager
                (s\<lparr>cacheManager := snd (updateOrderStatus (u_clientOid order) ''live'' Buy now (cacheManager s))\<rparr>)))"
    using assms by (simp add: updateOrderStatus_prices)
  have filled: "distinct (buyPrices (cacheManager
                (handleBuyOrderFilled cfg (u_price order) (u_clientOid order)
                   (js_or (u_newSize order) (u_size order)) nonce now
                   (s\<lparr>cacheManager := addFilledBuyOrder (u_price order)
                         \<lparr>f_orderId = (if u_orderId order = [] then ''unknown'' else u_orderId order),
                          f_clientOid = u_clientOid order, f_price = u_price order,
                          f_size = js_or (u_newSize order) (u_size order), f_timestamp = now\<rparr>
                         (snd (removeBuyOrder (u_clientOid order) (cacheManager s)))\<rparr>))))"
    using removeBuyOrder_distinct [OF assms, of "u_clientOid order"]
    by (simp add: buyPrices_def handleBuyOrderFilled_buys addFilledBuyOrder_def)
  have cancelled: "distinct (buyPrices (cacheManager
                (onOrderCancelled cfg (u_clientOid order) nonce now
                   (s\<lparr>cacheManager := snd (removeBuyOrder (u_clientOid order) (cacheManager s))\<rparr>))))"
    by (rule onOrderCancelled_distinct) (simp add: removeBuyOrder_distinct [OF assms])
  have sfilled: "distinct (buyPrices (cacheManager
                (handleSellOrderFilled
                   (s\<lparr>cacheManager := snd (removeSellOrder (u_price order)
                         (snd (removeFilledBuyOrder (js_sub (u_price order) (priceStep cfg)) (cacheManager s))))\<rparr>))))"
    using assms
    by (simp add: buyPrices_def handleSellOrderFilled_def removeSellOrder_buys removeFilledBuyOrder_buys)
  have scancel: "\<And>p. distinct (buyPrices (cacheManager
                (s\<lparr>cacheManager := snd (removeSellOrder p (cacheManager s))\<rparr>)))"
    using assms by (simp add: buyPrices_def removeSellOrder_buys)
  show ?thesis
    unfolding handleOrderUpdate_def Let_def
    using assms live filled cancelled sfilled scancel
    by (simp split: option.split prod.split)
qed

lemma cancelOrder_cache: "cacheManager (snd (cancelOrder clientOid s)) = cacheManager s"
  by (simp add: cancelOrder_def split: prod.split)

lemma handleInsufficientBalance_cache:
  "cacheManager (handleInsufficientBalance F s) = cacheManager s"
proof -
  have "\<And>x. cacheManager (snd (cancelOrder x (s\<lparr>isHandlingInsufficientBalance := True\<rparr>))) = cacheManager s"
    by (simp add: cancelOrder_cache)
  then show ?thesis
    by (simp add: handleInsufficientBalance_def Let_def split: list.split prod.split)
       (metis snd_conv)
qed

lemma cancelTimeout_cache: "cacheManager (cancelTimeout s) = cacheManager s"
  by (simp add: cancelTimeout_def split: option.split)

lemma enforceMaxOrders_cache: "cacheManager (snd (enforceMaxOrders cfg s)) = cacheManager s"
  by (simp add: enforceMaxOrders_def Let_def split: option.split prod.split)

lemma onTooManyRequests_distinct:
  assumes "distinct (buyPrices (cacheManager s))"
  shows "distinct (buyPrices (cacheManager (onTooManyRequests clientOid s)))"
  using assms removeBuyOrder_distinct [OF assms, of clientOid]
  by (simp add: onTooManyRequests_def buyPrices_def removeSellOrder_buys split: option.split prod.split)

lemma step_distinct:
  assumes "distinct (buyPrices (cacheManager s))"
  shows "distinct (buyPrices (cacheManager (step cfg i s)))"
proof (cases i)
  case (PlaceBuy price nonce now)
  then show ?thesis using placeBuyOrder_distinct [OF assms] by simp
next
  case (PlaceSell price sz nonce now)
  then show ?thesis using assms by (simp add: buyPrices_def placeSellOrder_buys)
next
  case (BulkBuy pricesData mkNonce now)
  then show ?thesis using placeBulkBuyOrders_distinct [OF assms] by simp
next
  case (OrderUpdate order nonce now)
  then show ?thesis using handleOrderUpdate_distinct [OF assms] by simp
next
  case (TooManyRequests clientOid)
  then show ?thesis using onTooManyRequests_distinct [OF assms] by simp
next
  case (CancelOrderUnknown clientOid)
  then show ?thesis
    using removeBuyOrder_distinct [OF assms, of clientOid] by (simp add: onCancelOrderUnknown_def)
next
  case (InsufficientBalance price)
  then show ?thesis using assms by (simp add: handleInsufficientBalance_cache)
next
  case CancelTimeout
  then show ?thesis using assms by (simp add: cancelTimeout_cache)
next
  case (CleanPending maxPendingTimeMs now)
  then show ?thesis using cleanPendingOrders_distinct [OF assms] by simp
next
  case EnforceMaxOrders
  then show ?thesis using assms by (simp add: enforceMaxOrders_cache)
next
  case (PriceUpdate price now)
  then show ?thesis using assms by (simp add: updatePrice_def buyPrices_def)
next
  case (Connection a b c)
  then show ?thesis using assms by simp
qed

lemma run_distinct:
  "distinct (buyPrices (cacheManager s)) \<Longrightarrow> distinct (buyPrices (cacheManager (run cfg inputs s)))"
proof (induction inputs arbitrary: s)
  case Nil
  then show ?case by (simp add: run_def)
next
  case (Cons i inputs)
  from Cons.IH [OF step_distinct [OF Cons.prems]] show ?case by (simp add: run_def)
qed

lemma initialBot_distinct: "distinct (buyPrices (cacheManager initialBot))"
  by (simp add: initialBot_def emptyCache_def buyPrices_def)

lemma placeBuyOrder_refused:
  "has (sellCurrentOrders (cacheManager s)) (Some (price + priceStep cfg))
   \<or> has (buyFilledOrders (cacheManager s)) (Some price)
   \<or> price \<in> set (buyPrices (cacheManager s))
   \<Longrightarrow> placeBuyOrder cfg price nonce now s = (None, s)"
  by (auto simp: placeBuyOrder_def canPlaceOrder_def buyPrices_def)


text \<open>
  Claim C1, as stated, after the buy at 10000 has filled and been re-quoted by a sell at
  10050: \<open>canPlaceOrder\<close> looks for a sell at \<open>price + step\<close>, not at \<open>price\<close>, so the
  buy at 10050 is accepted and an active buy and an active sell share the price 10050.
\<close>

theorem buy_and_sell_share_price:
  "buyPrices (cacheManager sameRungExample) = [10050]
   \<and> map fst (sellCurrentOrders (cacheManager sameRungExample)) = [Some 10050]"
  by code_simp

text \<open>
  Claim C1 (amended). In every state reached from the empty store by placements, order
  events, error replies, expiry of pending orders and the other turns of the event loop,
  no two active buy orders share a price. The guard of buy placement refuses a buy at
  \<open>P\<close> while an active sell stands at \<open>P + step\<close>, a FilledBuyRecord stands at \<open>P\<close>
  or a buy stands at \<open>P\<close>; it does not look at sells at \<open>P\<close>, and sell placement has
  no guard. A buy at \<open>P\<close> and a sell at \<open>P + step\<close> may coexist: after a pending buy
  at 10000 has expired from the store and a second one has been placed, a fill report for
  the first one puts a sell at 10050 beside the buy at 10000.
\<close>

theorem buy_prices_distinct_in_runs:
  "distinct (buyPrices (cacheManager (run cfg inputs initialBot)))
   \<and> (has (sellCurrentOrders (cacheManager s)) (Some (price + priceStep cfg))
        \<or> has (buyFilledOrders (cacheManager s)) (Some price)
        \<or> price \<in> set (buyPrices (cacheManager s))
       \<longrightarrow> placeBuyOrder cfg price nonce now s = (None, s))
   \<and> buyPrices (cacheManager lateFillExample) = [10000]
   \<and> map fst (sellCurrentOrders (cacheManager lateFillExample)) = [Some 10050]"
proof -
  have 1: "distinct (buyPrices (cacheManager (run cfg inputs initialBot)))"
    by (rule run_distinct [OF initialBot_distinct])
  have 2: "has (sellCurrentOrders (cacheManager s)) (Some (price + priceStep cfg))
        \<or> has (buyFilledOrders (cacheManager s)) (Some price)
        \<or> price \<in> set (buyPrices (cacheManager s))
       \<longrightarrow> placeBuyOrder cfg price nonce now s = (None, s)"
    using placeBuyOrder_refused by blast
  have 3: "buyPrices (cacheManager lateFillExample) = [10000]
   \<and> map fst (sellCurrentOrders (cacheManager lateFillExample)) = [Some 10050]"
    by code_simp
  from 1 2 3 show ?thesis by blast
qed

theorem buy_prices_distinct_in_runs_witness:
  "distinct (buyPrices (cacheManager
      (run exampleConfig [PlaceBuy 10000 ''1'' 0, PlaceBuy 10000 ''2'' 1, PlaceBuy 9950 ''3'' 2] initialBot)))
   \<and> has (sellCurrentOrders (cacheManager requotedExample)) (Some (10000 + priceStep exampleConfig))
   \<and> placeBuyOrder exampleConfig 10000 ''9'' 9 requotedExample = (None, requotedExample)
   \<and> buyPrices (cacheManager lateFillExample) = [10000]
   \<and> map fst (sellCurrentOrders (cacheManager lateFillExample)) = [Some 10050]"
proof -
  have h: "has (sellCurrentOrders (cacheManager requotedExample)) (Some (10000 + priceStep exampleConfig))"
    by code_simp
  note t = buy_prices_distinct_in_runs
             [of exampleConfig "[PlaceBuy 10000 ''1'' 0, PlaceBuy 10000 ''2'' 1, PlaceBuy 9950 ''3'' 2]"
                 requotedExample 10000 "''9''" 9]
  show ?thesis
    using h t by blast
qed

section \<open>Transitions of a buy order\<close>

lemma handleOrderUpdate_buy_live:
  assumes "startsWith (u_clientOid order) ''buy_''" "u_status order = ''live''"
  shows "handleOrderUpdate cfg order nonce now s =
           s\<lparr>cacheManager := snd (updateOrderStatus (u_clientOid order) ''live'' Buy now (cacheManager s))\<rparr>"
  using assms startsWith_nonempty [OF assms(1)]
  by (simp add: handleOrderUpdate_def Let_def)

lemma handleOrderUpdate_buy_other:
  assumes "startsWith (u_clientOid order) ''buy_''"
      and "u_status order \<noteq> ''live''" "u_status order \<noteq> ''filled''"
      and "u_status order \<noteq> ''cancelled''" "u_status order \<noteq> ''canceled''"
  shows "handleOrderUpdate cfg order nonce now s = s"
  using assms startsWith_nonempty [OF assms(1)]
  by (simp add: handleOrderUpdate_def Let_def)

lemma handleOrderUpdate_filled_buys:
  assumes "startsWith (u_clientOid order) ''buy_''" "u_status order = ''filled''"
  shows "buyCurrentOrders (cacheManager (handleOrderUpdate cfg order nonce now s))
           = buyCurrentOrders (snd (removeBuyOrder (u_clientOid order) (cacheManager s)))"
  by (simp add: handleOrderUpdate_buy_filled [OF assms] handleBuyOrderFilled_buys addFilledBuyOrder_def)

lemma handleOrderUpdate_cancelled_no_wait:
  assumes "startsWith (u_clientOid order) ''buy_''"
      and "u_status order = ''cancelled'' \<or> u_status order = ''canceled''"
      and "\<forall>r. cancelWait s = Some r \<longrightarrow> awaitedOid r \<noteq> u_clientOid order"
  shows "handleOrderUpdate cfg order nonce now s
           = s\<lparr>cacheManager := snd (removeBuyOrder (u_clientOid order) (cacheManager s))\<rparr>"
  using assms(3)
  by (auto simp add: handleOrderUpdate_buy_cancelled [OF assms(1,2)] onOrderCancelled_def
           split: option.split)

lemma handleOrderUpdate_filled_twice:
  assumes "startsWith (u_clientOid order) ''buy_''" "u_status order = ''filled''"
  shows "buyCurrentOrders (cacheManager (handleOrderUpdate cfg order nonce2 now2
                                          (handleOrderUpdate cfg order nonce now s)))
           = buyCurrentOrders (cacheManager (handleOrderUpdate cfg order nonce now s))"
  by (simp add: handleOrderUpdate_filled_buys [OF assms] removeBuyOrder_buys delete_idem)

lemma handleOrderUpdate_cancelled_twice:
  assumes "startsWith (u_clientOid order) ''buy_''"
      and "u_status order = ''cancelled'' \<or> u_status order = ''canceled''"
      and "\<forall>r. cancelWait s = Some r \<longrightarrow> awaitedOid r \<noteq> u_clientOid order"
  shows "handleOrderUpdate cfg order nonce2 now2 (handleOrderUpdate cfg order nonce now s)
           = handleOrderUpdate cfg order nonce now s"
proof -
  let ?s1 = "s\<lparr>cacheManager := snd (removeBuyOrder (u_clientOid order) (cacheManager s))\<rparr>"
  have 1: "handleOrderUpdate cfg order nonce now s = ?s1"
    by (rule handleOrderUpdate_cancelled_no_wait [OF assms])
  have w: "\<forall>r. cancelWait ?s1 = Some r \<longrightarrow> awaitedOid r \<noteq> u_clientOid order"
    using assms(3) by simp
  have 2: "handleOrderUpdate cfg order nonce2 now2 ?s1
             = ?s1\<lparr>cacheManager := snd (removeBuyOrder (u_clientOid order) (cacheManager ?s1))\<rparr>"
    by (rule handleOrderUpdate_cancelled_no_wait [OF assms(1,2) w])
  show ?thesis
    unfolding 1 2 by (simp add: removeBuyOrder_twice)
qed

text \<open>
  Claim C6, as stated, on a cache where \<open>buy_1\<close> is live at 100. The operation of the
  store that takes a new status, \<open>updateOrderStatus\<close>, given the terminal status
  \<open>filled\<close> returns \<open>true\<close>, not the order, and keeps the order in the active set with
  that status; called again it returns \<open>true\<close> again. And the transition the event
  handler makes on a fill report is not idempotent: the same report handled a second time
  counts a second fill and sends a second sell.
\<close>

theorem updateOrderStatus_filled_keeps_order:
  "updateOrderStatus ''buy_1'' ''filled'' Buy 7 liveExample
     = (True, liveExample\<lparr>buyCurrentOrders :=
          [(''buy_1'', \<lparr>b_price = 100, b_size = Some (1 / 2), b_status = ''filled'', b_timestamp = 5\<rparr>)]\<rparr>)
   \<and> fst (updateOrderStatus ''buy_1'' ''filled'' Buy 8
            (snd (updateOrderStatus ''buy_1'' ''filled'' Buy 7 liveExample))) = True
   \<and> length (buyCurrentOrders (snd (updateOrderStatus ''buy_1'' ''filled'' Buy 7 liveExample)))
     = length (buyCurrentOrders liveExample)
   \<and> buyOrdersFilled (orderStats requotedExample) = 1
   \<and> buyOrdersFilled (orderStats (handleOrderUpdate exampleConfig buyFillEvent ''3'' 6 requotedExample)) = 2
   \<and> sent (wsManager (handleOrderUpdate exampleConfig buyFillEvent ''3'' 6 requotedExample))
     = sent (wsManager fillExample)
       @ [PlaceOrderMsg ''sell_2'' Sell 10050 (Some (1 / 100)),
          PlaceOrderMsg ''sell_3'' Sell 10050 (Some (1 / 100))]"
  by code_simp

text \<open>
  Claim C6 (amended). The store has no single transition operation. On an absent
  identifier \<open>updateOrderStatus\<close> and \<open>removeBuyOrder\<close> change nothing. On a present
  one \<open>updateOrderStatus\<close> sets the status, whatever it is, and keeps the order, and
  \<open>removeBuyOrder\<close> returns the record and removes it, making the map one shorter;
  removing again returns nothing and leaves the store as it is. The choice between them
  is made by \<open>handleOrderUpdate\<close> on the status of the event of a buy order: \<open>live\<close>
  goes to \<open>updateOrderStatus\<close>; \<open>filled\<close> removes the order from the active buys, and
  the same event handled again leaves the active buys as they are; \<open>cancelled\<close> (or
  \<open>canceled\<close>), when no recovery waits for that identifier, does \<open>removeBuyOrder\<close> and
  nothing else, and the same event handled again changes nothing; any other status
  changes nothing.
\<close>

theorem order_transition:
  "(map_of (buyCurrentOrders c) clientOid = None \<longrightarrow>
      updateOrderStatus clientOid newStatus Buy now c = (False, c)
      \<and> removeBuyOrder clientOid c = (None, c))
   \<and> (\<forall>order. map_of (buyCurrentOrders c) clientOid = Some order \<longrightarrow>
        fst (updateOrderStatus clientOid newStatus Buy now c) = True
        \<and> map_of (buyCurrentOrders (snd (updateOrderStatus clientOid newStatus Buy now c)))
            = (map_of (buyCurrentOrders c))(clientOid \<mapsto> order\<lparr>b_status := newStatus\<rparr>)
        \<and> map fst (buyCurrentOrders (snd (updateOrderStatus clientOid newStatus Buy now c)))
            = map fst (buyCurrentOrders c)
        \<and> fst (removeBuyOrder clientOid c) = Some order
        \<and> map_of (buyCurrentOrders (snd (removeBuyOrder clientOid c)))
            = (map_of (buyCurrentOrders c))(clientOid := None)
        \<and> (distinct (map fst (buyCurrentOrders c)) \<longrightarrow>
             length (buyCurrentOrders (snd (removeBuyOrder clientOid c))) + 1
               = length (buyCurrentOrders c)))
   \<and> removeBuyOrder clientOid (snd (removeBuyOrder clientOid c))
       = (None, snd (removeBuyOrder clientOid c))
   \<and> sellCurrentOrders (snd (removeBuyOrder clientOid c)) = sellCurrentOrders c
   \<and> buyFilledOrders (snd (removeBuyOrder clientOid c)) = buyFilledOrders c
   \<and> sellCurrentOrders (snd (updateOrderStatus clientOid newStatus Buy now c)) = sellCurrentOrders c
   \<and> buyFilledOrders (snd (updateOrderStatus clientOid newStatus Buy now c)) = buyFilledOrders c
   \<and> (startsWith (u_clientOid event) ''buy_'' \<longrightarrow>
        (u_status event = ''live'' \<longrightarrow>
           handleOrderUpdate cfg event nonce now s
             = s\<lparr>cacheManager := snd (updateOrderStatus (u_clientOid event) ''live'' Buy now
                                        (cacheManager s))\<rparr>)
        \<and> (u_status event = ''filled'' \<longrightarrow>
             buyCurrentOrders (cacheManager (handleOrderUpdate cfg event nonce now s))
               = buyCurrentOrders (snd (removeBuyOrder (u_clientOid event) (cacheManager s)))
             \<and> buyCurrentOrders (cacheManager (handleOrderUpdate cfg event nonce' now'
                                                (handleOrderUpdate cfg event nonce now s)))
               = buyCurrentOrders (cacheManager (handleOrderUpdate cfg event nonce now s)))
        \<and> ((u_status event = ''cancelled'' \<or> u_status event = ''canceled'')
             \<and> (\<forall>r. cancelWait s = Some r \<longrightarrow> awaitedOid r \<noteq> u_clientOid event) \<longrightarrow>
             handleOrderUpdate cfg event nonce now s
               = s\<lparr>cacheManager := snd (removeBuyOrder (u_clientOid event) (cacheManager s))\<rparr>
             \<and> handleOrderUpdate cfg event nonce' now' (handleOrderUpdate cfg event nonce now s)
               = handleOrderUpdate cfg event nonce now s)
        \<and> (u_status event \<noteq> ''live'' \<and> u_status event \<noteq> ''filled''
             \<and> u_status event \<noteq> ''cancelled'' \<and> u_status event \<noteq> ''canceled'' \<longrightarrow>
             handleOrderUpdate cfg event nonce now s = s))"
proof -
  note store = store_transitions [of c clientOid newStatus now]
  have live: "startsWith (u_clientOid event) ''buy_'' \<Longrightarrow> u_status event = ''live'' \<Longrightarrow>
           handleOrderUpdate cfg event nonce now s
             = s\<lparr>cacheManager := snd (updateOrderStatus (u_clientOid event) ''live'' Buy now
                                        (cacheManager s))\<rparr>"
    by (rule handleOrderUpdate_buy_live)
  have filled: "startsWith (u_clientOid event) ''buy_'' \<Longrightarrow> u_status event = ''filled'' \<Longrightarrow>
             buyCurrentOrders (cacheManager (handleOrderUpdate cfg event nonce now s))
               = buyCurrentOrders (snd (removeBuyOrder (u_clientOid event) (cacheManager s)))
             \<and> buyCurrentOrders (cacheManager (handleOrderUpdate cfg event nonce' now'
                                                (handleOrderUpdate cfg event nonce now s)))
               = buyCurrentOrders (cacheManager (handleOrderUpdate cfg event nonce now s))"
    using handleOrderUpdate_filled_buys [of event cfg nonce now s]
          handleOrderUpdate_filled_twice [of event cfg nonce' now' nonce now s]
    by (rule conjI)
  have cancelled: "startsWith (u_clientOid event) ''buy_'' \<Longrightarrow>
             (u_status event = ''cancelled'' \<or> u_status event = ''canceled'')
             \<and> (\<forall>r. cancelWait s = Some r \<longrightarrow> awaitedOid r \<noteq> u_clientOid event) \<Longrightarrow>
             handleOrderUpdate cfg event nonce now s
               = s\<lparr>cacheManager := snd (removeBuyOrder (u_clientOid event) (cacheManager s))\<rparr>
             \<and> handleOrderUpdate cfg event nonce' now' (handleOrderUpdate cfg event nonce now s)
               = handleOrderUpdate cfg event nonce now s"
    using handleOrderUpdate_cancelled_no_wait [of event s cfg nonce now]
          handleOrderUpdate_cancelled_twice [of event s cfg nonce' now' nonce now]
    by blast
  have other: "startsWith (u_clientOid event) ''buy_'' \<Longrightarrow>
             u_status event \<noteq> ''live'' \<and> u_status event \<noteq> ''filled''
             \<and> u_status event \<noteq> ''cancelled'' \<and> u_status event \<noteq> ''canceled'' \<Longrightarrow>
             handleOrderUpdate cfg event nonce now s = s"
    using handleOrderUpdate_buy_other [of event cfg nonce now s] by blast
  show ?thesis
    using store live filled cancelled other by blast
qed

theorem order_transition_witness:
  "map_of (buyCurrentOrders liveExample) ''buy_2'' = None
   \<and> updateOrderStatus ''buy_2'' ''live'' Buy 7 liveExample = (False, liveExample)
   \<and> removeBuyOrder ''buy_2'' liveExample = (None, liveExample)
   \<and> map_of (buyCurrentOrders liveExample) ''buy_1''
       = Some \<lparr>b_price = 100, b_size = Some (1 / 2), b_status = ''live'', b_timestamp = 5\<rparr>
   \<and> fst (removeBuyOrder ''buy_1'' liveExample)
       = Some \<lparr>b_price = 100, b_size = Some (1 / 2), b_status = ''live'', b_timestamp = 5\<rparr>
   \<and> distinct (map fst (buyCurrentOrders liveExample))
   \<and> length (buyCurrentOrders (snd (removeBuyOrder ''buy_1'' liveExample))) + 1
       = length (buyCurrentOrders liveExample)
   \<and> removeBuyOrder ''buy_1'' (snd (removeBuyOrder ''buy_1'' liveExample))
       = (None, snd (removeBuyOrder ''buy_1'' liveExample))
   \<and> startsWith (u_clientOid (liveEvent ''buy_4'' 9800)) ''buy_''
   \<and> u_status (liveEvent ''buy_4'' 9800) = ''live''
   \<and> handleOrderUpdate exampleConfig (liveEvent ''buy_4'' 9800) [] 7 rejectedExample
       = rejectedExample\<lparr>cacheManager := snd (updateOrderStatus (u_clientOid (liveEvent ''buy_4'' 9800))
                                                ''live'' Buy 7 (cacheManager rejectedExample))\<rparr>
   \<and> startsWith (u_clientOid buyFillEvent) ''buy_'' \<and> u_status buyFillEvent = ''filled''
   \<and> buyCurrentOrders (cacheManager (handleOrderUpdate exampleConfig buyFillEvent ''2'' 7 fillExample))
       = buyCurrentOrders (snd (removeBuyOrder (u_clientOid buyFillEvent) (cacheManager fillExample)))
   \<and> buyCurrentOrders (cacheManager (handleOrderUpdate exampleConfig buyFillEvent ''3'' 8
                          (handleOrderUpdate exampleConfig buyFillEvent ''2'' 7 fillExample)))
       = buyCurrentOrders (cacheManager (handleOrderUpdate exampleConfig buyFillEvent ''2'' 7 fillExample))
   \<and> startsWith (u_clientOid (cancelledEvent ''buy_2'' 9750)) ''buy_''
   \<and> u_status (cancelledEvent ''buy_2'' 9750) = ''cancelled''
   \<and> cancelWait recoveryExample = None
   \<and> handleOrderUpdate exampleConfig (cancelledEvent ''buy_2'' 9750) ''2'' 7 recoveryExample
       = recoveryExample\<lparr>cacheManager := snd (removeBuyOrder (u_clientOid (cancelledEvent ''buy_2'' 9750))
                                                (cacheManager recoveryExample))\<rparr>
   \<and> handleOrderUpdate exampleConfig (cancelledEvent ''buy_2'' 9750) ''3'' 8
        (handleOrderUpdate exampleConfig (cancelledEvent ''buy_2'' 9750) ''2'' 7 recoveryExample)
       = handleOrderUpdate exampleConfig (cancelledEvent ''buy_2'' 9750) ''2'' 7 recoveryExample
   \<and> u_status ((liveEvent ''buy_2'' 9750)\<lparr>u_status := ''partially_filled''\<rparr>) = ''partially_filled''
   \<and> handleOrderUpdate exampleConfig ((liveEvent ''buy_2'' 9750)\<lparr>u_status := ''partially_filled''\<rparr>)
        ''2'' 7 recoveryExample = recoveryExample"
proof -
  have a: "map_of (buyCurrentOrders liveExample) ''buy_2'' = None"
    by code_simp
  have p: "map_of (buyCurrentOrders liveExample) ''buy_1''
             = Some \<lparr>b_price = 100, b_size = Some (1 / 2), b_status = ''live'', b_timestamp = 5\<rparr>"
    by code_simp
  have d: "distinct (map fst (buyCurrentOrders liveExample))"
    by code_simp
  have el: "startsWith (u_clientOid (liveEvent ''buy_4'' 9800)) ''buy_''"
           "u_status (liveEvent ''buy_4'' 9800) = ''live''"
    by code_simp+
  have ef: "startsWith (u_clientOid buyFillEvent) ''buy_''" "u_status buyFillEvent = ''filled''"
    by code_simp+
  have ec: "startsWith (u_clientOid (cancelledEvent ''buy_2'' 9750)) ''buy_''"
           "u_status (cancelledEvent ''buy_2'' 9750) = ''cancelled''"
    by code_simp+
  have w: "cancelWait recoveryExample = None"
    by code_simp
  then have w': "\<forall>r. cancelWait recoveryExample = Some r
                    \<longrightarrow> awaitedOid r \<noteq> u_clientOid (cancelledEvent ''buy_2'' 9750)"
    by simp
  have eo: "startsWith (u_clientOid ((liveEvent ''buy_2'' 9750)\<lparr>u_status := ''partially_filled''\<rparr>)) ''buy_''"
           "u_status ((liveEvent ''buy_2'' 9750)\<lparr>u_status := ''partially_filled''\<rparr>) = ''partially_filled''"
    by code_simp+
  have eo': "u_status ((liveEvent ''buy_2'' 9750)\<lparr>u_status := ''partially_filled''\<rparr>) \<noteq> ''live''
             \<and> u_status ((liveEvent ''buy_2'' 9750)\<lparr>u_status := ''partially_filled''\<rparr>) \<noteq> ''filled''
             \<and> u_status ((liveEvent ''buy_2'' 9750)\<lparr>u_status := ''partially_filled''\<rparr>) \<noteq> ''cancelled''
             \<and> u_status ((liveEvent ''buy_2'' 9750)\<lparr>u_status := ''partially_filled''\<rparr>) \<noteq> ''canceled''"
    unfolding eo(2) by simp
  have 1: "updateOrderStatus ''buy_2'' ''live'' Buy 7 liveExample = (False, liveExample)
           \<and> removeBuyOrder ''buy_2'' liveExample = (None, liveExample)"
    using a order_transition [where c = liveExample and clientOid = "''buy_2''"
                                and newStatus = "''live''" and now = 7]
    by blast
  have 2: "fst (removeBuyOrder ''buy_1'' liveExample)
             = Some \<lparr>b_price = 100, b_size = Some (1 / 2), b_status = ''live'', b_timestamp = 5\<rparr>
           \<and> length (buyCurrentOrders (snd (removeBuyOrder ''buy_1'' liveExample))) + 1
               = length (buyCurrentOrders liveExample)
           \<and> removeBuyOrder ''buy_1'' (snd (removeBuyOrder ''buy_1'' liveExample))
               = (None, snd (removeBuyOrder ''buy_1'' liveExample))"
    using p d order_transition [where c = liveExample and clientOid = "''buy_1''"
                                  and newStatus = "''filled''" and now = 7]
    by blast
  have 3: "handleOrderUpdate exampleConfig (liveEvent ''buy_4'' 9800) [] 7 rejectedExample
       = rejectedExample\<lparr>cacheManager := snd (updateOrderStatus (u_clientOid (liveEvent ''buy_4'' 9800))
                                                ''live'' Buy 7 (cacheManager rejectedExample))\<rparr>"
    using el order_transition [where event = "liveEvent ''buy_4'' 9800" and cfg = exampleConfig
                                 and nonce = "[]" and now = 7 and s = rejectedExample]
    by blast
  have 4: "buyCurrentOrders (cacheManager (handleOrderUpdate exampleConfig buyFillEvent ''2'' 7 fillExample))
       = buyCurrentOrders (snd (removeBuyOrder (u_clientOid buyFillEvent) (cacheManager fillExample)))
   \<and> buyCurrentOrders (cacheManager (handleOrderUpdate exampleConfig buyFillEvent ''3'' 8
                          (handleOrderUpdate exampleConfig buyFillEvent ''2'' 7 fillExample)))
       = buyCurrentOrders (cacheManager (handleOrderUpdate exampleConfig buyFillEvent ''2'' 7 fillExample))"
    using ef order_transition [where event = buyFillEvent and cfg = exampleConfig
                                 and nonce = "''2''" and now = 7 and s = fillExample
                                 and nonce' = "''3''" and now' = 8]
    by blast
  have 5: "handleOrderUpdate exampleConfig (cancelledEvent ''buy_2'' 9750) ''2'' 7 recoveryExample
       = recoveryExample\<lparr>cacheManager := snd (removeBuyOrder (u_clientOid (cancelledEvent ''buy_2'' 9750))
                                                (cacheManager recoveryExample))\<rparr>
   \<and> handleOrderUpdate exampleConfig (cancelledEvent ''buy_2'' 9750) ''3'' 8
        (handleOrderUpdate exampleConfig (cancelledEvent ''buy_2'' 9750) ''2'' 7 recoveryExample)
       = handleOrderUpdate exampleConfig (cancelledEvent ''buy_2'' 9750) ''2'' 7 recoveryExample"
    using ec w' order_transition [where event = "cancelledEvent ''buy_2'' 9750" and cfg = exampleConfig
                                 and nonce = "''2''" and now = 7 and s = recoveryExample
                                 and nonce' = "''3''" and now' = 8]
    by blast
  have 6: "handleOrderUpdate exampleConfig ((liveEvent ''buy_2'' 9750)\<lparr>u_status := ''partially_filled''\<rparr>)
        ''2'' 7 recoveryExample = recoveryExample"
    using eo(1) eo' order_transition [where event = "(liveEvent ''buy_2'' 9750)\<lparr>u_status := ''partially_filled''\<rparr>"
                                 and cfg = exampleConfig and nonce = "''2''" and now = 7
                                 and s = recoveryExample]
    by blast
  show ?thesis
    using a p d el ef ec w eo(2) 1 2 3 4 5 6 by blast
qed

end
